theory Spec2Isabelle
  imports
    Complex_Main
    "HOL-Library.Char_ord"
    "HOL-Library.List_Lexorder"
    "HOL-Library.Product_Lexorder"
    "HOL-Library.Multiset"
begin

section \<open>Python values and data frames\<close>

text \<open>
  The three modules of the repository (\<^verbatim>\<open>utils/file_handler.py\<close>,
  \<^verbatim>\<open>utils/data_analyzer.py\<close>, \<^verbatim>\<open>utils/chart_generator.py\<close>) are thin layers over
  pandas and plotly. The development embeds the repository's functions statement by
  statement and gives the library calls they make an explicit functional reading,
  in exact real arithmetic (floating-point rounding is not modelled).

  A cell of a data frame is a Python value. \<open>PNone\<close> stands for both \<^verbatim>\<open>None\<close> and
  NaN (pandas treats both as missing). Cells are compared structurally.
\<close>

datatype pyval =
    PNone
  | PBool bool
  | PNum real
  | PStr string
  | PList "pyval list"
  | PDict "(string \<times> pyval) list"

text \<open>
  A column carries its dtype: \<open>Number\<close> abstracts \<^verbatim>\<open>int64\<close>/\<^verbatim>\<open>float64\<close>
  (what \<^verbatim>\<open>select_dtypes(include=['number'])\<close> selects), \<open>Boolean\<close> is \<^verbatim>\<open>bool\<close> and
  \<open>Object\<close> is \<^verbatim>\<open>object\<close>. Column labels are strings, or positions for a frame
  built from positional rows.
\<close>

datatype dtype = Number | Boolean | Object

datatype label = Name string | Pos nat

record series =
  dtype :: dtype
  cells :: "pyval list"

record dataframe =
  index_len :: nat
  columns :: "(label \<times> series) list"

text \<open>Python exceptions, each with its message (\<^verbatim>\<open>str(e)\<close>). \<open>Unmodelled\<close> is not
  an exception of Python: it marks a library path that the development leaves out.\<close>

datatype py_error =
    KeyError string
  | ValueError string
  | TypeError string
  | AttributeError string
  | UnicodeDecodeError string
  | OtherError string
  | Unmodelled string

fun message :: "py_error \<Rightarrow> string" where
  "message (KeyError m) = m"
| "message (ValueError m) = m"
| "message (TypeError m) = m"
| "message (AttributeError m) = m"
| "message (UnicodeDecodeError m) = m"
| "message (OtherError m) = m"
| "message (Unmodelled m) = m"

text \<open>\<^verbatim>\<open>df[col]\<close>: the column under a label (labels are unique in a container;
  \<open>None\<close> where pandas raises for a label that is not there).\<close>

definition column :: "dataframe \<Rightarrow> label \<Rightarrow> series option" where
  "column df l = map_of (columns df) l"

fun hashable :: "pyval \<Rightarrow> bool" where
  "hashable (PList _) = False"
| "hashable (PDict _) = False"
| "hashable _ = True"

fun num_of :: "pyval \<Rightarrow> real option" where
  "num_of (PNum r) = Some r"
| "num_of (PBool b) = Some (if b then 1 else 0)"
| "num_of _ = None"

definition notna :: "pyval list \<Rightarrow> pyval list" where
  "notna cs = filter (\<lambda>c. c \<noteq> PNone) cs"

text \<open>\<^verbatim>\<open>Series.nunique()\<close>: the number of distinct non-missing values; hashing an
  unhashable cell (a list or a dict) raises \<^verbatim>\<open>TypeError\<close>.\<close>

definition nunique :: "pyval list \<Rightarrow> py_error + nat" where
  "nunique cs =
     (if list_all hashable cs then Inr (length (remdups (notna cs)))
      else Inl (TypeError ''unhashable type''))"

section \<open>Chart generator\<close>

subsection \<open>Grouping and sorting\<close>

text \<open>
  \<^verbatim>\<open>df.groupby(x_column)[y_column].sum().reset_index()\<close>: one row per distinct
  non-missing key, keys in sorted order (numbers before strings, as pandas orders a
  mixed key column), the value being the sum of the non-missing y cells of the group.
  The two-column frame \<^verbatim>\<open>pie_data\<close> is kept as its list of rows.
  Summation of an \<^verbatim>\<open>object\<close> column (Python \<^verbatim>\<open>+\<close> on arbitrary objects) is not
  modelled: \<open>groupby_sum\<close> stops there with \<open>Unmodelled\<close>, and nothing is stated
  about that path.
\<close>

fun key_rank :: "pyval \<Rightarrow> nat \<times> real \<times> string" where
  "key_rank (PNum r) = (0, r, [])"
| "key_rank (PBool b) = (0, (if b then 1 else 0), [])"
| "key_rank (PStr s) = (1, 0, s)"
| "key_rank _ = (2, 0, [])"

definition group_keys :: "pyval list \<Rightarrow> pyval list" where
  "group_keys xs = sort_key key_rank (remdups (notna xs))"

definition group_sum :: "(pyval \<times> pyval) list \<Rightarrow> pyval \<Rightarrow> real" where
  "group_sum rows k =
     sum_list (map (\<lambda>r. case num_of (snd r) of None \<Rightarrow> 0 | Some v \<Rightarrow> v)
                   (filter (\<lambda>r. fst r = k) rows))"

definition groupby_sum :: "dataframe \<Rightarrow> string \<Rightarrow> string \<Rightarrow> py_error + (pyval \<times> real) list" where
  "groupby_sum df x_column y_column =
     (case column df (Name x_column) of
        None \<Rightarrow> Inl (KeyError x_column)
      | Some xs \<Rightarrow>
          (case column df (Name y_column) of
             None \<Rightarrow> Inl (KeyError y_column)
           | Some ys \<Rightarrow>
               if \<not> list_all hashable (cells xs) then Inl (TypeError ''unhashable type'')
               else if dtype ys = Object then Inl (Unmodelled ''sum of an object column'')
               else if x_column = y_column then Inl (ValueError ''cannot insert, already exists'')
               else Inr (map (\<lambda>k. (k, group_sum (zip (cells xs) (cells ys)) k))
                             (group_keys (cells xs)))))"

text \<open>\<^verbatim>\<open>sort_values(by=y_column, ascending=False)\<close>, as a stable descending sort.
  pandas does not promise an order among equal sums; the sorted values, the number of
  rows and the sum of any tail do not depend on it.\<close>

definition sort_values_desc :: "(pyval \<times> real) list \<Rightarrow> (pyval \<times> real) list" where
  "sort_values_desc rows = sort_key (\<lambda>r. - snd r) rows"

subsection \<open>Figures\<close>

text \<open>
  A figure records what \<open>generate_chart\<close> hands to plotly: the geometry, the data
  bound to it (for a pie: labels and values), the keyword arguments of the
  \<^verbatim>\<open>px\<close> constructor, and the layout directives given through
  \<^verbatim>\<open>update_layout\<close>. A layout field is \<open>None\<close> as long as \<open>generate_chart\<close> has
  not set it on that figure.
\<close>

record figure =
  geometry :: string
  x_data :: "pyval list"
  y_data :: "pyval list"
  fig_title :: string
  color :: "string option"
  fig_height :: int
  hole :: "real option"
  markers :: bool
  box :: bool
  title_x :: "real option"
  xaxis_title :: "string option"
  yaxis_title :: "string option"
  template :: "string option"
  xaxis_tickangle :: "int option"

definition slices :: "figure \<Rightarrow> (pyval \<times> pyval) list" where
  "slices fig = zip (x_data fig) (y_data fig)"

definition px :: "string \<Rightarrow> pyval list \<Rightarrow> pyval list \<Rightarrow> string \<Rightarrow> int \<Rightarrow> figure" where
  "px geom xs ys ttl h =
     \<lparr> geometry = geom, x_data = xs, y_data = ys, fig_title = ttl, color = None,
       fig_height = h, hole = None, markers = False, box = False, title_x = None,
       xaxis_title = None, yaxis_title = None, template = None, xaxis_tickangle = None \<rparr>"

text \<open>The \<^verbatim>\<open>px\<close> constructors reject a column argument that is not a column of the
  frame with \<^verbatim>\<open>ValueError\<close>.\<close>

definition px_xy :: "string \<Rightarrow> dataframe \<Rightarrow> string \<Rightarrow> string \<Rightarrow> string \<Rightarrow> int \<Rightarrow> py_error + figure" where
  "px_xy geom df x_column y_column ttl h =
     (case column df (Name x_column) of
        None \<Rightarrow> Inl (ValueError x_column)
      | Some xs \<Rightarrow>
          (case column df (Name y_column) of
             None \<Rightarrow> Inl (ValueError y_column)
           | Some ys \<Rightarrow> Inr (px geom (cells xs) (cells ys) ttl h)))"

definition px_pie :: "(pyval \<times> real) list \<Rightarrow> string \<Rightarrow> int \<Rightarrow> real option \<Rightarrow> figure" where
  "px_pie pie_data ttl h hl =
     (px ''pie'' (map fst pie_data) (map (\<lambda>r. PNum (snd r)) pie_data) ttl h) \<lparr> hole := hl \<rparr>"

definition px_histogram :: "dataframe \<Rightarrow> string \<Rightarrow> string \<Rightarrow> int \<Rightarrow> string option \<Rightarrow> py_error + figure" where
  "px_histogram df x_column ttl h col =
     (case column df (Name x_column) of
        None \<Rightarrow> Inl (ValueError x_column)
      | Some xs \<Rightarrow>
          (case col of
             None \<Rightarrow> Inr (px ''histogram'' (cells xs) [] ttl h)
           | Some c \<Rightarrow>
               (case column df (Name c) of
                  None \<Rightarrow> Inl (ValueError c)
                | Some _ \<Rightarrow> Inr ((px ''histogram'' (cells xs) [] ttl h) \<lparr> color := Some c \<rparr>))))"

subsection \<open>\<^verbatim>\<open>available_chart_types\<close> and \<^verbatim>\<open>generate_chart\<close>\<close>

definition available_chart_types :: "string list" where
  "available_chart_types =
     [''bar'', ''line'', ''scatter'', ''pie'', ''area'', ''histogram'', ''box'', ''violin'']"

text \<open>The \<^verbatim>\<open>if\<close>/\<^verbatim>\<open>elif\<close> chain that creates the figure.\<close>

definition create_figure ::
  "dataframe \<Rightarrow> string \<Rightarrow> string \<Rightarrow> string \<Rightarrow> string \<Rightarrow> bool \<Rightarrow> int \<Rightarrow> py_error + figure" where
  "create_figure df chart_type x_column y_column ttl use_color h =
     (if chart_type = ''bar'' then
        map_sum id (\<lambda>f. f \<lparr> color := (if use_color then Some x_column else None) \<rparr>)
          (px_xy ''bar'' df x_column y_column ttl h)
      else if chart_type = ''line'' then
        map_sum id (\<lambda>f. f \<lparr> markers := True \<rparr>) (px_xy ''line'' df x_column y_column ttl h)
      else if chart_type = ''scatter'' then
        map_sum id (\<lambda>f. f \<lparr> color := (if use_color then Some x_column else None) \<rparr>)
          (px_xy ''scatter'' df x_column y_column ttl h)
      else if chart_type = ''pie'' then
        map_sum id (\<lambda>pie_data. px_pie pie_data ttl h None) (groupby_sum df x_column y_column)
      else if chart_type = ''donut'' then
        map_sum id (\<lambda>pie_data. px_pie pie_data ttl h (Some (4 / 10)))
          (groupby_sum df x_column y_column)
      else if chart_type = ''area'' then
        px_xy ''area'' df x_column y_column ttl h
      else if chart_type = ''histogram'' then
        px_histogram df x_column ttl h (if use_color then Some y_column else None)
      else if chart_type = ''box'' then
        map_sum id (\<lambda>f. f \<lparr> color := (if use_color then Some x_column else None) \<rparr>)
          (px_xy ''box'' df x_column y_column ttl h)
      else if chart_type = ''violin'' then
        map_sum id (\<lambda>f. f \<lparr> box := True \<rparr>) (px_xy ''violin'' df x_column y_column ttl h)
      else Inl (ValueError (''Unsupported chart type: '' @ chart_type)))"

text \<open>\<^verbatim>\<open>fig.update_layout(title_x=0.5, xaxis_title=..., yaxis_title=..., template=...)\<close>.\<close>

definition update_layout :: "string \<Rightarrow> string \<Rightarrow> string \<Rightarrow> bool \<Rightarrow> figure \<Rightarrow> figure" where
  "update_layout chart_type x_column y_column show_grid fig =
     fig \<lparr> title_x := Some (1 / 2),
           xaxis_title := Some x_column,
           yaxis_title := (if chart_type \<noteq> ''pie'' \<and> chart_type \<noteq> ''donut''
                           then Some y_column else None),
           template := Some (if show_grid then ''plotly'' else ''plotly_white'') \<rparr>"

text \<open>The block "Adjust for readability with many categories". In the pie/donut
  branch the figure is replaced by a fresh \<^verbatim>\<open>px.pie\<close> figure when \<^verbatim>\<open>other_value > 0\<close>;
  otherwise the figure built so far is returned.\<close>

definition adjust_categories ::
  "dataframe \<Rightarrow> string \<Rightarrow> string \<Rightarrow> string \<Rightarrow> string \<Rightarrow> int \<Rightarrow> figure \<Rightarrow> py_error + figure" where
  "adjust_categories df chart_type x_column y_column ttl h fig =
     (if chart_type = ''bar'' \<or> chart_type = ''pie'' \<or> chart_type = ''donut'' then
        (case column df (Name x_column) of
           None \<Rightarrow> Inl (KeyError x_column)
         | Some xs \<Rightarrow>
             (case nunique (cells xs) of
                Inl e \<Rightarrow> Inl e
              | Inr unique_categories \<Rightarrow>
                  if unique_categories > 10 then
                    (if chart_type = ''bar'' then Inr (fig \<lparr> xaxis_tickangle := Some (- 45) \<rparr>)
                     else
                       (case groupby_sum df x_column y_column of
                          Inl e \<Rightarrow> Inl e
                        | Inr pie_data \<Rightarrow>
                            (let top_n = 9;
                                 sorted_data = sort_values_desc pie_data;
                                 top_data = take top_n sorted_data;
                                 other_value = sum_list (map snd (drop top_n sorted_data))
                             in if other_value > 0 then
                                  (let final_data = top_data @ [(PStr ''Other'', other_value)]
                                   in Inr (px_pie final_data ttl h
                                            (Some (if chart_type = ''donut'' then 4 / 10 else 0))))
                                else Inr fig)))
                  else Inr fig))
      else Inr fig)"

definition generate_chart ::
  "dataframe \<Rightarrow> string \<Rightarrow> string \<Rightarrow> string \<Rightarrow> string option \<Rightarrow> bool \<Rightarrow> int \<Rightarrow> bool
     \<Rightarrow> py_error + figure" where
  "generate_chart df chart_type x_column y_column title_arg use_color h show_grid =
     (let ttl = (case title_arg of None \<Rightarrow> y_column @ '' by '' @ x_column | Some t \<Rightarrow> t)
      in case create_figure df chart_type x_column y_column ttl use_color h of
           Inl e \<Rightarrow> Inl e
         | Inr fig \<Rightarrow>
             adjust_categories df chart_type x_column y_column ttl h
               (update_layout chart_type x_column y_column show_grid fig))"

subsection \<open>Example frames\<close>

text \<open>The data set \<^verbatim>\<open>name,sales / A,10 / B,20 / A,5\<close>.\<close>

definition sales_frame :: dataframe where
  "sales_frame =
     \<lparr> index_len = 3,
       columns =
         [(Name ''name'', \<lparr> dtype = Object, cells = [PStr ''A'', PStr ''B'', PStr ''A''] \<rparr>),
          (Name ''sales'', \<lparr> dtype = Number, cells = [PNum 10, PNum 20, PNum 5] \<rparr>)] \<rparr>"

text \<open>Eleven categories; \<open>amount\<close> sums to 1, ..., 11 per category, while \<open>tail0\<close> is
  10 for nine categories and 0 for the other two.\<close>

definition eleven_frame :: dataframe where
  "eleven_frame =
     \<lparr> index_len = 11,
       columns =
         [(Name ''cat'', \<lparr> dtype = Object, cells =
             [PStr ''a'', PStr ''b'', PStr ''c'', PStr ''d'', PStr ''e'', PStr ''f'',
              PStr ''g'', PStr ''h'', PStr ''i'', PStr ''j'', PStr ''k''] \<rparr>),
          (Name ''amount'', \<lparr> dtype = Number, cells =
             [PNum 1, PNum 2, PNum 3, PNum 4, PNum 5, PNum 6,
              PNum 7, PNum 8, PNum 9, PNum 10, PNum 11] \<rparr>),
          (Name ''tail0'', \<lparr> dtype = Number, cells =
             [PNum 0, PNum 10, PNum 10, PNum 10, PNum 10, PNum 10,
              PNum 10, PNum 10, PNum 10, PNum 10, PNum 0] \<rparr>)] \<rparr>"

section \<open>File loader\<close>

subsection \<open>\<^verbatim>\<open>pd.json_normalize\<close> and the \<^verbatim>\<open>DataFrame\<close> constructor\<close>

text \<open>
  A \<open>PDict\<close> is a Python dict in insertion order (its keys are distinct).
  \<open>dict_set\<close> is the assignment \<^verbatim>\<open>d[k] = v\<close>.
\<close>

fun dict_set :: "string \<Rightarrow> pyval \<Rightarrow> (string \<times> pyval) list \<Rightarrow> (string \<times> pyval) list" where
  "dict_set k v [] = [(k, v)]"
| "dict_set k v (kv # d) = (if fst kv = k then (k, v) # d else kv # dict_set k v d)"

fun is_dict :: "pyval \<Rightarrow> bool" where
  "is_dict (PDict _) = True"
| "is_dict _ = False"

fun is_list :: "pyval \<Rightarrow> bool" where
  "is_list (PList _) = True"
| "is_list _ = False"

text \<open>
  pandas' \<^verbatim>\<open>_normalise_json(data, key_string, normalized_dict, separator='.')\<close>: nested
  dicts are flattened into dot-joined keys, any other value is stored under the key
  built so far.
\<close>

fun normalise_json :: "pyval \<Rightarrow> string \<Rightarrow> (string \<times> pyval) list \<Rightarrow> (string \<times> pyval) list"
  and normalise_items ::
    "(string \<times> pyval) list \<Rightarrow> string \<Rightarrow> (string \<times> pyval) list \<Rightarrow> (string \<times> pyval) list" where
  "normalise_json (PDict items) key_string acc = normalise_items items key_string acc"
| "normalise_json PNone key_string acc = dict_set key_string PNone acc"
| "normalise_json (PBool b) key_string acc = dict_set key_string (PBool b) acc"
| "normalise_json (PNum r) key_string acc = dict_set key_string (PNum r) acc"
| "normalise_json (PStr s) key_string acc = dict_set key_string (PStr s) acc"
| "normalise_json (PList l) key_string acc = dict_set key_string (PList l) acc"
| "normalise_items [] key_string acc = acc"
| "normalise_items (kv # rest) key_string acc =
     normalise_items rest key_string
       (normalise_json (snd kv)
          (if key_string = [] then fst kv else key_string @ ''.'' @ fst kv) acc)"

text \<open>\<^verbatim>\<open>_normalise_json_ordered\<close>: the top-level non-dict entries first, then the
  flattened nested ones (\<^verbatim>\<open>{**top_dict_, **nested_dict_}\<close>).\<close>

definition normalise_json_ordered :: "(string \<times> pyval) list \<Rightarrow> (string \<times> pyval) list" where
  "normalise_json_ordered items =
     (let top_dict = filter (\<lambda>kv. \<not> is_dict (snd kv)) items;
          nested_dict = normalise_items (filter (\<lambda>kv. is_dict (snd kv)) items) [] []
      in fold (\<lambda>kv d. dict_set (fst kv) (snd kv) d) nested_dict top_dict)"

text \<open>\<^verbatim>\<open>_simple_json_normalize\<close>: a dict is flattened, a list is normalised element by
  element, anything else becomes the empty dict.\<close>

fun simple_json_normalize :: "pyval \<Rightarrow> pyval" where
  "simple_json_normalize (PDict items) = PDict (normalise_json_ordered items)"
| "simple_json_normalize (PList l) = PList (map simple_json_normalize l)"
| "simple_json_normalize _ = PDict []"

text \<open>
  The rows handed to the \<^verbatim>\<open>DataFrame\<close> constructor are dicts (records) or lists
  (positional rows).
\<close>

datatype row = Record "(string \<times> pyval) list" | Positional "pyval list"

fun as_row :: "pyval \<Rightarrow> row" where
  "as_row (PDict items) = Record items"
| "as_row (PList l) = Positional l"
| "as_row _ = Record []"

fun is_record :: "row \<Rightarrow> bool" where
  "is_record (Record _) = True"
| "is_record (Positional _) = False"

text \<open>Column dtype inference of the constructor: all booleans give \<^verbatim>\<open>bool\<close>, numbers
  (possibly with missing cells) give a numeric dtype, anything else \<^verbatim>\<open>object\<close>.\<close>

fun is_num :: "pyval \<Rightarrow> bool" where
  "is_num (PNum _) = True"
| "is_num _ = False"

fun is_bool :: "pyval \<Rightarrow> bool" where
  "is_bool (PBool _) = True"
| "is_bool _ = False"

definition infer_dtype :: "pyval list \<Rightarrow> dtype" where
  "infer_dtype cs =
     (if cs \<noteq> [] \<and> list_all is_bool cs then Boolean
      else if list_ex is_num cs \<and> list_all (\<lambda>c. is_num c \<or> c = PNone) cs then Number
      else Object)"

definition mk_series :: "pyval list \<Rightarrow> series" where
  "mk_series cs = \<lparr> dtype = infer_dtype cs, cells = cs \<rparr>"

text \<open>Distinct elements in first-encountered order.\<close>

definition unique_first :: "'a list \<Rightarrow> 'a list" where
  "unique_first xs = rev (remdups (rev xs))"

fun record_keys :: "row \<Rightarrow> string list" where
  "record_keys (Record items) = map fst items"
| "record_keys (Positional l) = []"

fun record_get :: "string \<Rightarrow> row \<Rightarrow> pyval" where
  "record_get k (Record items) = (case map_of items k of None \<Rightarrow> PNone | Some v \<Rightarrow> v)"
| "record_get k (Positional l) = PNone"

fun row_items :: "row \<Rightarrow> pyval list" where
  "row_items (Positional l) = l"
| "row_items (Record items) = map (\<lambda>kv. PStr (fst kv)) items"

text \<open>
  \<^verbatim>\<open>pd.DataFrame(rows)\<close> for a list of rows. The first row decides the reading: with a
  dict first, every row must be a dict (a list row has no \<^verbatim>\<open>keys()\<close>:
  \<^verbatim>\<open>AttributeError\<close>), the columns are the keys in first-encountered order and a
  key missing from a row gives a missing cell; with a list first, the rows are
  positional, padded with missing cells, a dict contributing its keys.
\<close>

definition DataFrame :: "row list \<Rightarrow> py_error + dataframe" where
  "DataFrame rows =
     (case rows of
        [] \<Rightarrow> Inr \<lparr> index_len = 0, columns = [] \<rparr>
      | Record _ # _ \<Rightarrow>
          if list_all is_record rows then
            Inr \<lparr> index_len = length rows,
                  columns = map (\<lambda>k. (Name k, mk_series (map (record_get k) rows)))
                                (unique_first (concat (map record_keys rows))) \<rparr>
          else Inl (AttributeError ''list object has no attribute keys'')
      | Positional _ # _ \<Rightarrow>
          Inr \<lparr> index_len = length rows,
                columns = map (\<lambda>j. (Pos j, mk_series (map (\<lambda>r. if j < length (row_items r)
                                                               then row_items r ! j else PNone) rows)))
                              [0 ..< fold max (map (\<lambda>r. length (row_items r)) rows) 0] \<rparr>)"

text \<open>\<^verbatim>\<open>pd.json_normalize(data)\<close> for a list \<open>data\<close>, with the default arguments.\<close>

definition json_normalize :: "pyval list \<Rightarrow> py_error + dataframe" where
  "json_normalize data =
     (if data = [] then Inr \<lparr> index_len = 0, columns = [] \<rparr>
      else DataFrame (map (\<lambda>d. as_row (simple_json_normalize d)) data))"

subsection \<open>\<^verbatim>\<open>load_file\<close>\<close>

text \<open>
  The uploaded file is a named byte stream with a read position. The text parsers
  \<^verbatim>\<open>pd.read_csv\<close> and \<^verbatim>\<open>json.load\<close> are parameters of the model: \<open>read_csv\<close> takes
  the encoding and the stream and returns its outcome together with the stream as
  it leaves it, \<open>json_load\<close> returns the parsed value or the exception raised.
\<close>

record uploaded_file =
  file_name :: string
  content :: "nat list"
  pos :: nat

text \<open>The four \<^verbatim>\<open>raise Exception(...)\<close> sites of \<open>load_file\<close> that reach the caller,
  with the text interpolated into the message.\<close>

datatype load_error =
    UnsupportedFileType string
  | ErrorLoadingCSV string
  | FailedToParseCSV string
  | ErrorLoadingJSON string

text \<open>Modelled from the spec: the error taxonomy of the loader. The code raises plain
  \<^verbatim>\<open>Exception\<close>s; "Unsupported file type" is the specification's
  \<open>UnsupportedFormat\<close>, the three other messages are its \<open>ParseError\<close>.\<close>

datatype error_kind = UnsupportedFormat | ParseError

fun error_class :: "load_error \<Rightarrow> error_kind" where
  "error_class (UnsupportedFileType _) = UnsupportedFormat"
| "error_class _ = ParseError"

text \<open>\<^verbatim>\<open>uploaded_file.name.split('.')[-1].lower()\<close>, on ASCII letters.\<close>

definition last_part :: "string \<Rightarrow> string" where
  "last_part s = rev (takeWhile (\<lambda>c. c \<noteq> CHR ''.'') (rev s))"

definition lower_char :: "char \<Rightarrow> char" where
  "lower_char c =
     (case map_of (zip ''ABCDEFGHIJKLMNOPQRSTUVWXYZ'' ''abcdefghijklmnopqrstuvwxyz'') c of
        None \<Rightarrow> c
      | Some l \<Rightarrow> l)"

definition lower :: "string \<Rightarrow> string" where
  "lower s = map lower_char s"

definition file_type :: "uploaded_file \<Rightarrow> string" where
  "file_type uploaded_file = lower (last_part (file_name uploaded_file))"

text \<open>The body of the \<^verbatim>\<open>try\<close> block of the JSON branch.\<close>

definition json_frame :: "py_error + pyval \<Rightarrow> py_error + dataframe" where
  "json_frame parsed =
     (case parsed of
        Inl e \<Rightarrow> Inl e
      | Inr json_data \<Rightarrow>
          (case json_data of
             PList l \<Rightarrow> json_normalize l
           | PDict items \<Rightarrow>
               (case map_of items ''data'' of
                  Some (PList l) \<Rightarrow> json_normalize l
                | _ \<Rightarrow> DataFrame [Record items])
           | _ \<Rightarrow> Inl (OtherError
                 ''Unsupported JSON structure. Please provide a JSON array of objects.'')))"

definition load_file ::
  "(string \<Rightarrow> uploaded_file \<Rightarrow> (py_error + dataframe) \<times> uploaded_file)
     \<Rightarrow> (uploaded_file \<Rightarrow> py_error + pyval) \<Rightarrow> uploaded_file \<Rightarrow> load_error + dataframe" where
  "load_file read_csv json_load uploaded_file =
     (if file_type uploaded_file = ''csv'' then
        (case read_csv ''utf-8'' uploaded_file of
           (Inr df, _) \<Rightarrow> Inr df
         | (Inl (UnicodeDecodeError m), uploaded_file') \<Rightarrow>
             (case fst (read_csv ''latin1'' uploaded_file') of
                Inr df \<Rightarrow> Inr df
              | Inl e \<Rightarrow> Inl (FailedToParseCSV (message e)))
         | (Inl e, _) \<Rightarrow> Inl (ErrorLoadingCSV (message e)))
      else if file_type uploaded_file = ''json'' then
        (case json_frame (json_load uploaded_file) of
           Inr df \<Rightarrow> Inr df
         | Inl e \<Rightarrow> Inl (ErrorLoadingJSON (message e)))
      else Inl (UnsupportedFileType (file_type uploaded_file)))"

subsection \<open>Example uploads and parsers\<close>

definition upload :: "string \<Rightarrow> uploaded_file" where
  "upload n = \<lparr> file_name = n, content = [], pos = 0 \<rparr>"

text \<open>A \<open>read_csv\<close> that fails to decode as UTF-8 and succeeds as Latin-1, and one that
  fails with a parser error.\<close>

definition csv_latin1_only :: "string \<Rightarrow> uploaded_file \<Rightarrow> (py_error + dataframe) \<times> uploaded_file" where
  "csv_latin1_only enc f =
     (if enc = ''utf-8'' then (Inl (UnicodeDecodeError ''invalid start byte''), f \<lparr> pos := 1 \<rparr>)
      else (Inr sales_frame, f))"

definition csv_malformed :: "string \<Rightarrow> uploaded_file \<Rightarrow> (py_error + dataframe) \<times> uploaded_file" where
  "csv_malformed enc f = (Inl (OtherError ''Error tokenizing data''), f)"

definition json_yields :: "pyval \<Rightarrow> uploaded_file \<Rightarrow> py_error + pyval" where
  "json_yields v f = Inr v"

section \<open>Data analyzer\<close>

subsection \<open>Statistics of a numeric column\<close>

text \<open>
  A floating-point result that may be NaN is a \<open>real option\<close>, \<open>None\<close> being NaN; a
  comparison with NaN is false. The non-missing values of a numeric column:
\<close>

definition vals :: "series \<Rightarrow> real list" where
  "vals s = List.map_filter num_of (cells s)"

definition mean :: "real list \<Rightarrow> real option" where
  "mean vs = (if vs = [] then None else Some (sum_list vs / real (length vs)))"

text \<open>The sum of the \<open>p\<close>-th powers of the deviations from the mean.\<close>

definition dev_sum :: "nat \<Rightarrow> real list \<Rightarrow> real" where
  "dev_sum p vs = sum_list (map (\<lambda>v. (v - sum_list vs / real (length vs)) ^ p) vs)"

text \<open>Sample variance and standard deviation (\<^verbatim>\<open>ddof=1\<close>).\<close>

definition variance :: "real list \<Rightarrow> real option" where
  "variance vs = (if length vs < 2 then None else Some (dev_sum 2 vs / (real (length vs) - 1)))"

definition std :: "real list \<Rightarrow> real option" where
  "std vs = map_option sqrt (variance vs)"

text \<open>\<^verbatim>\<open>Series.quantile(q)\<close>: linear interpolation between the order statistics of the
  non-missing values; NaN for an empty column.\<close>

definition quantile :: "real \<Rightarrow> real list \<Rightarrow> real option" where
  "quantile q vs =
     (if vs = [] then None
      else
        (let srt = sort vs;
             h = q * (real (length vs) - 1);
             lo = nat \<lfloor>h\<rfloor>;
             hi = min (lo + 1) (length vs - 1)
         in Some (srt ! lo + (h - real lo) * (srt ! hi - srt ! lo))))"

text \<open>\<^verbatim>\<open>DataFrame.describe()\<close> of the numeric columns.\<close>

record describe_stats =
  stat_count :: nat
  stat_mean :: "real option"
  stat_std :: "real option"
  stat_min :: "real option"
  stat_q25 :: "real option"
  stat_q50 :: "real option"
  stat_q75 :: "real option"
  stat_max :: "real option"

definition describe_series :: "series \<Rightarrow> describe_stats" where
  "describe_series s =
     (let vs = vals s
      in \<lparr> stat_count = length vs,
           stat_mean = mean vs,
           stat_std = std vs,
           stat_min = (case vs of [] \<Rightarrow> None | v # rest \<Rightarrow> Some (fold min rest v)),
           stat_q25 = quantile (1 / 4) vs,
           stat_q50 = quantile (1 / 2) vs,
           stat_q75 = quantile (3 / 4) vs,
           stat_max = (case vs of [] \<Rightarrow> None | v # rest \<Rightarrow> Some (fold max rest v)) \<rparr>)"

definition describe :: "(label \<times> series) list \<Rightarrow> (label \<times> describe_stats) list" where
  "describe cols = map (\<lambda>c. (fst c, describe_series (snd c))) cols"

subsection \<open>Correlation\<close>

text \<open>
  \<^verbatim>\<open>DataFrame.corr()\<close>: the Pearson coefficient of every pair of columns over the
  rows where both cells are present; NaN when there is no such row or when one of the
  two sums of squared deviations vanishes. \<^verbatim>\<open>.round(2)\<close> rounds every entry to two
  decimals, half to even.
\<close>

fun complete_pairs :: "pyval list \<Rightarrow> pyval list \<Rightarrow> (real \<times> real) list" where
  "complete_pairs (x # xs) (y # ys) =
     (case (num_of x, num_of y) of
        (Some a, Some b) \<Rightarrow> (a, b) # complete_pairs xs ys
      | _ \<Rightarrow> complete_pairs xs ys)"
| "complete_pairs _ _ = []"

definition pearson :: "pyval list \<Rightarrow> pyval list \<Rightarrow> real option" where
  "pearson xs ys =
     (let pairs = complete_pairs xs ys;
          as = map fst pairs;
          bs = map snd pairs;
          ma = sum_list as / real (length pairs);
          mb = sum_list bs / real (length pairs);
          ssqdm_x = sum_list (map (\<lambda>p. (fst p - ma) ^ 2) pairs);
          ssqdm_y = sum_list (map (\<lambda>p. (snd p - mb) ^ 2) pairs);
          covxy = sum_list (map (\<lambda>p. (fst p - ma) * (snd p - mb)) pairs);
          divisor = sqrt (ssqdm_x * ssqdm_y)
      in if pairs = [] then None
         else if divisor \<noteq> 0 then Some (covxy / divisor)
         else None)"

definition rint :: "real \<Rightarrow> int" where
  "rint x =
     (let f = \<lfloor>x\<rfloor>; d = x - of_int f
      in if d < 1 / 2 then f
         else if 1 / 2 < d then f + 1
         else if even f then f else f + 1)"

definition round2 :: "real \<Rightarrow> real" where
  "round2 x = of_int (rint (x * 100)) / 100"

definition corr_round2 :: "(label \<times> series) list \<Rightarrow> real option list list" where
  "corr_round2 cols =
     map (\<lambda>a. map (\<lambda>b. map_option round2 (pearson (cells (snd a)) (cells (snd b)))) cols) cols"

subsection \<open>Outliers\<close>

text \<open>The body of the outlier loop: the number of rows whose cell lies below
  \<^verbatim>\<open>q1 - 1.5 * iqr\<close> or above \<^verbatim>\<open>q3 + 1.5 * iqr\<close>. A missing cell, or a NaN bound,
  compares false.\<close>

definition outlier_count :: "series \<Rightarrow> nat" where
  "outlier_count s =
     (case (quantile (1 / 4) (vals s), quantile (3 / 4) (vals s)) of
        (Some q1, Some q3) \<Rightarrow>
          (let iqr = q3 - q1;
               lower_bound = q1 - 15 / 10 * iqr;
               upper_bound = q3 + 15 / 10 * iqr
           in length (filter (\<lambda>v. v < lower_bound \<or> upper_bound < v) (vals s)))
      | _ \<Rightarrow> 0)"

definition find_outliers :: "(label \<times> series) list \<Rightarrow> (label \<times> nat) list" where
  "find_outliers cols =
     map (\<lambda>c. (fst c, outlier_count (snd c))) (filter (\<lambda>c. 0 < outlier_count (snd c)) cols)"

subsection \<open>Categorical columns and missing values\<close>

text \<open>\<^verbatim>\<open>Series.value_counts()\<close>: the non-missing values with their counts, most
  frequent first, ties in first-encountered order. An unhashable cell raises
  \<^verbatim>\<open>TypeError\<close>.\<close>

definition value_counts :: "pyval list \<Rightarrow> py_error + (pyval \<times> nat) list" where
  "value_counts cs =
     (if list_all hashable cs then
        Inr (sort_key (\<lambda>p. - int (snd p))
               (map (\<lambda>v. (v, count_list cs v)) (unique_first (notna cs))))
      else Inl (TypeError ''unhashable type''))"

record cat_summary =
  unique_values :: nat
  top_values :: "(pyval \<times> nat) list"

definition summarize_categorical :: "pyval list \<Rightarrow> py_error + cat_summary" where
  "summarize_categorical cs =
     (case value_counts cs of
        Inl e \<Rightarrow> Inl e
      | Inr value_counts_all \<Rightarrow>
          (case nunique cs of
             Inl e \<Rightarrow> Inl e
           | Inr n \<Rightarrow> Inr \<lparr> unique_values = n, top_values = take 10 value_counts_all \<rparr>))"

fun cat_summaries :: "(label \<times> series) list \<Rightarrow> py_error + (label \<times> cat_summary) list" where
  "cat_summaries [] = Inr []"
| "cat_summaries (c # cols) =
     (case summarize_categorical (cells (snd c)) of
        Inl e \<Rightarrow> Inl e
      | Inr s \<Rightarrow>
          (case cat_summaries cols of
             Inl e \<Rightarrow> Inl e
           | Inr rest \<Rightarrow> Inr ((fst c, s) # rest)))"

definition isnull_sum :: "(label \<times> series) list \<Rightarrow> (label \<times> nat) list" where
  "isnull_sum cols = map (\<lambda>c. (fst c, length (filter (\<lambda>x. x = PNone) (cells (snd c))))) cols"

subsection \<open>Distribution shape\<close>

text \<open>pandas' \<^verbatim>\<open>Series.skew()\<close> and \<^verbatim>\<open>Series.kurtosis()\<close> (bias-corrected; NaN below 3
  and 4 observations, 0 for a constant column).\<close>

definition skew :: "real list \<Rightarrow> real option" where
  "skew vs =
     (let n = real (length vs); m2 = dev_sum 2 vs; m3 = dev_sum 3 vs
      in if length vs < 3 then None
         else if m2 = 0 then Some 0
         else Some ((n * sqrt (n - 1) / (n - 2)) * (m3 / (m2 * sqrt m2))))"

definition kurt :: "real list \<Rightarrow> real option" where
  "kurt vs =
     (let n = real (length vs); m2 = dev_sum 2 vs; m4 = dev_sum 4 vs;
          adj = 3 * (n - 1) ^ 2 / ((n - 2) * (n - 3));
          numerator = n * (n + 1) * (n - 1) * m4;
          denominator = (n - 2) * (n - 3) * m2 ^ 2
      in if length vs < 4 then None
         else if denominator = 0 then Some 0
         else Some (numerator / denominator - adj))"

text \<open>\<^verbatim>\<open>abs(x) < 0.5\<close>, false for NaN.\<close>

definition abs_below_half :: "real option \<Rightarrow> bool" where
  "abs_below_half x = (case x of None \<Rightarrow> False | Some v \<Rightarrow> \<bar>v\<bar> < 1 / 2)"

record dist_entry =
  skewness :: "real option"
  kurtosis :: "real option"
  is_normal :: bool

definition distribution_of :: "series \<Rightarrow> dist_entry" where
  "distribution_of s =
     (let skewness_raw = skew (vals s);
          kurtosis_raw = kurt (vals s)
      in \<lparr> skewness = map_option round2 skewness_raw,
           kurtosis = map_option round2 kurtosis_raw,
           is_normal = (abs_below_half skewness_raw \<and> abs_below_half kurtosis_raw) \<rparr>)"

subsection \<open>\<^verbatim>\<open>analyze_data\<close>\<close>

text \<open>
  The result dictionary is a record; a key that the code sets only under a condition
  is an optional field. Column labels are unique (the container's invariant), so
  \<^verbatim>\<open>df[col]\<close> is the series listed under the label \<open>col\<close>, and the loops over
  \<^verbatim>\<open>numeric_cols\<close> and \<^verbatim>\<open>cat_cols\<close> run over the labelled series. \<open>column_types\<close>
  keeps the dtype tag in place of its name.
\<close>

record analysis =
  row_count :: nat
  column_count :: nat
  column_types :: "(label \<times> dtype) list"
  numeric_summary :: "(label \<times> describe_stats) list option"
  correlation :: "real option list list option"
  potential_outliers :: "(label \<times> nat) list option"
  categorical_summary :: "(label \<times> cat_summary) list option"
  missing_values :: "(label \<times> nat) list option"
  distribution :: "(label \<times> dist_entry) list option"

definition numeric_columns :: "dataframe \<Rightarrow> (label \<times> series) list" where
  "numeric_columns df = filter (\<lambda>c. dtype (snd c) = Number) (columns df)"

definition numeric_cols :: "dataframe \<Rightarrow> label list" where
  "numeric_cols df = map fst (numeric_columns df)"

definition cat_columns :: "dataframe \<Rightarrow> (label \<times> series) list" where
  "cat_columns df = filter (\<lambda>c. fst c \<notin> set (numeric_cols df)) (columns df)"

definition analyze_data :: "dataframe \<Rightarrow> py_error + analysis" where
  "analyze_data df =
     (case cat_summaries (cat_columns df) of
        Inl e \<Rightarrow> Inl e
      | Inr summaries \<Rightarrow>
          Inr \<lparr> row_count = index_len df,
                column_count = length (columns df),
                column_types = map (\<lambda>c. (fst c, dtype (snd c))) (columns df),
                numeric_summary =
                  (if numeric_cols df \<noteq> [] then Some (describe (numeric_columns df)) else None),
                correlation =
                  (if numeric_cols df \<noteq> [] \<and> 1 < length (numeric_cols df)
                   then Some (corr_round2 (numeric_columns df)) else None),
                potential_outliers =
                  (if numeric_cols df \<noteq> [] \<and> find_outliers (numeric_columns df) \<noteq> []
                   then Some (find_outliers (numeric_columns df)) else None),
                categorical_summary =
                  (if cat_columns df \<noteq> [] then Some summaries else None),
                missing_values =
                  (if 0 < sum_list (map snd (isnull_sum (columns df)))
                   then Some (filter (\<lambda>p. 0 < snd p) (isnull_sum (columns df))) else None),
                distribution =
                  (if numeric_cols df \<noteq> []
                   then Some (map (\<lambda>c. (fst c, distribution_of (snd c))) (numeric_columns df))
                   else None) \<rparr>)"

text \<open>Modelled from the spec: the invariant of a tabular container (section 3 of the
  specification) -- unique column names, every column as long as the row count, and
  every cell numeric, text, boolean or null.\<close>

definition well_formed :: "dataframe \<Rightarrow> bool" where
  "well_formed df =
     (distinct (map fst (columns df))
      \<and> list_all (\<lambda>c. length (cells (snd c)) = index_len df \<and> list_all hashable (cells (snd c)))
                 (columns df))"

subsection \<open>Example frames\<close>

definition xy_frame :: dataframe where
  "xy_frame =
     \<lparr> index_len = 2,
       columns =
         [(Name ''x'', \<lparr> dtype = Number, cells = [PNum 1, PNum 2] \<rparr>),
          (Name ''y'', \<lparr> dtype = Number, cells = [PNum 2, PNum 4] \<rparr>)] \<rparr>"

definition names_frame :: dataframe where
  "names_frame =
     \<lparr> index_len = 0,
       columns = [(Name ''name'', \<lparr> dtype = Object, cells = [] \<rparr>)] \<rparr>"

text \<open>Five readings, one of them far from the others.\<close>

definition readings_frame :: dataframe where
  "readings_frame =
     \<lparr> index_len = 5,
       columns =
         [(Name ''reading'', \<lparr> dtype = Number,
             cells = [PNum 1, PNum 1, PNum 1, PNum 1, PNum 100] \<rparr>)] \<rparr>"

text \<open>Ten symmetric readings.\<close>

definition bell_frame :: dataframe where
  "bell_frame =
     \<lparr> index_len = 10,
       columns =
         [(Name ''dev'', \<lparr> dtype = Number,
             cells = [PNum (- 2), PNum (- 1), PNum (- 1), PNum 0, PNum 0,
                      PNum 0, PNum 0, PNum 1, PNum 1, PNum 2] \<rparr>)] \<rparr>"

lemma distinct_group_keys: "distinct (group_keys xs)"
  by (simp add: group_keys_def)

lemma set_group_keys: "set (group_keys xs) = set xs - {PNone}"
  by (auto simp: group_keys_def notna_def)

lemma length_group_keys: "length (group_keys xs) = length (remdups (notna xs))"
  by (simp add: group_keys_def)

lemma mset_sort_values_desc: "mset (sort_values_desc rows) = mset rows"
  by (simp add: sort_values_desc_def)

lemma length_sort_values_desc: "length (sort_values_desc rows) = length rows"
  by (simp add: sort_values_desc_def)

lemma sorted_sort_values_desc:
  "sorted_wrt (\<lambda>a b. b \<le> a) (map snd (sort_values_desc rows))"
proof -
  have "sorted (map (\<lambda>r. - snd r) (sort_values_desc rows))"
    unfolding sort_values_desc_def by (rule sorted_sort_key)
  then have "sorted_wrt (\<lambda>a b. a \<le> b) (map uminus (map snd (sort_values_desc rows)))"
    by (simp add: comp_def)
  then show ?thesis
    by (simp add: sorted_wrt_map)
qed

lemma groupby_sum_Inr:
  assumes "groupby_sum df x_column y_column = Inr pie_data"
  obtains xs ys where "column df (Name x_column) = Some xs"
    and "column df (Name y_column) = Some ys"
    and "list_all hashable (cells xs)"
    and "dtype ys \<noteq> Object"
    and "x_column \<noteq> y_column"
    and "pie_data = map (\<lambda>k. (k, group_sum (zip (cells xs) (cells ys)) k)) (group_keys (cells xs))"
  using assms unfolding groupby_sum_def
  by (auto split: option.splits if_splits)

lemma px_pie_slices:
  "slices (px_pie pie_data ttl h hl) = map (\<lambda>r. (fst r, PNum (snd r))) pie_data"
  by (simp add: slices_def px_pie_def px_def zip_map_map zip_same_conv_map)

lemma slices_update_layout:
  "slices (update_layout ct x y g fig) = slices fig"
  by (simp add: slices_def update_layout_def)

lemma generate_pie_Inr:
  assumes ct: "chart_type = ''pie'' \<or> chart_type = ''donut''"
    and gen: "generate_chart df chart_type x_column y_column title_arg use_color h show_grid = Inr fig"
  shows "\<exists>pie_data xs ttl.
    groupby_sum df x_column y_column = Inr pie_data \<and>
    column df (Name x_column) = Some xs \<and>
    nunique (cells xs) = Inr (length (remdups (notna (cells xs)))) \<and>
    ttl = (case title_arg of None \<Rightarrow> y_column @ '' by '' @ x_column | Some t \<Rightarrow> t) \<and>
    adjust_categories df chart_type x_column y_column ttl h
        (update_layout chart_type x_column y_column show_grid
           (px_pie pie_data ttl h (if chart_type = ''donut'' then Some (4 / 10) else None))) = Inr fig"
proof -
  define ttl where "ttl = (case title_arg of None \<Rightarrow> y_column @ '' by '' @ x_column | Some t \<Rightarrow> t)"
  from gen obtain fig0 where
    cf: "create_figure df chart_type x_column y_column ttl use_color h = Inr fig0"
    and adj: "adjust_categories df chart_type x_column y_column ttl h
        (update_layout chart_type x_column y_column show_grid fig0) = Inr fig"
    unfolding generate_chart_def ttl_def[symmetric] by (auto simp: Let_def split: sum.splits)
  from ct cf obtain pie_data where
    gb: "groupby_sum df x_column y_column = Inr pie_data"
    and f0: "fig0 = px_pie pie_data ttl h (if chart_type = ''donut'' then Some (4 / 10) else None)"
    unfolding create_figure_def
    by (cases "groupby_sum df x_column y_column") auto
  from gb obtain xs where xs: "column df (Name x_column) = Some xs" "list_all hashable (cells xs)"
    by (rule groupby_sum_Inr)
  then have "nunique (cells xs) = Inr (length (remdups (notna (cells xs))))"
    by (simp add: nunique_def)
  with gb xs adj f0 ttl_def show ?thesis
    by blast
qed

subsection \<open>Pie charts without collapsing\<close>

text \<open>
  Claim C9. A pie request over an x column with at most 10 distinct values groups the
  rows by the x column and sums the y column per group: the figure is a pie with
  exactly one slice per distinct (non-missing) x value, and the value of the slice of
  \<open>k\<close> is the sum of the y cells of the rows whose x cell is \<open>k\<close>. On the data set
  (A,10), (B,20), (A,5) this gives the two slices A = 15 and B = 20.
\<close>

theorem pie_one_slice_per_group:
  assumes gen: "generate_chart df ''pie'' x_column y_column title_arg use_color h show_grid = Inr fig"
    and xs: "column df (Name x_column) = Some xs"
    and ys: "column df (Name y_column) = Some ys"
    and few: "length (remdups (notna (cells xs))) \<le> 10"
  shows "geometry fig = ''pie''
       \<and> distinct (map fst (slices fig))
       \<and> set (map fst (slices fig)) = set (cells xs) - {PNone}
       \<and> length (slices fig) = length (remdups (notna (cells xs)))
       \<and> slices fig = map (\<lambda>k. (k, PNum (group_sum (zip (cells xs) (cells ys)) k)))
                           (map fst (slices fig))
       \<and> (sales_frame = df \<and> x_column = ''name'' \<and> y_column = ''sales''
            \<longrightarrow> slices fig = [(PStr ''A'', PNum 15), (PStr ''B'', PNum 20)])"
proof -
  from gen obtain pie_data xs' ttl where
    gb: "groupby_sum df x_column y_column = Inr pie_data"
    and xs': "column df (Name x_column) = Some xs'"
    and nu: "nunique (cells xs') = Inr (length (remdups (notna (cells xs'))))"
    and adj: "adjust_categories df ''pie'' x_column y_column ttl h
        (update_layout ''pie'' x_column y_column show_grid
           (px_pie pie_data ttl h (if ''pie'' = ''donut'' then Some (4 / 10) else None))) = Inr fig"
    using generate_pie_Inr[where chart_type = "''pie''", OF _ gen] by auto
  from xs xs' have [simp]: "xs' = xs" by simp
  from gb xs ys have pd:
    "pie_data = map (\<lambda>k. (k, group_sum (zip (cells xs) (cells ys)) k)) (group_keys (cells xs))"
    by (auto elim!: groupby_sum_Inr)
  from adj xs nu few have fig:
    "fig = update_layout ''pie'' x_column y_column show_grid (px_pie pie_data ttl h None)"
    by (simp add: adjust_categories_def)
  have sl: "slices fig = map (\<lambda>k. (k, PNum (group_sum (zip (cells xs) (cells ys)) k)))
                             (group_keys (cells xs))"
    by (simp add: fig slices_update_layout px_pie_slices pd comp_def)
  have keys: "map fst (slices fig) = group_keys (cells xs)"
    by (simp add: sl comp_def)
  have geo: "geometry fig = ''pie''"
    by (simp add: fig update_layout_def px_pie_def px_def)
  have ex: "slices fig = [(PStr ''A'', PNum 15), (PStr ''B'', PNum 20)]"
    if "sales_frame = df" "x_column = ''name''" "y_column = ''sales''"
  proof -
    from that xs ys have "cells xs = [PStr ''A'', PStr ''B'', PStr ''A'']"
      and "cells ys = [PNum 10, PNum 20, PNum 5]"
      by (auto simp: sales_frame_def column_def)
    then show ?thesis
      by (simp add: sl group_keys_def notna_def group_sum_def)
  qed
  show ?thesis
    using geo ex keys sl
    by (simp add: distinct_group_keys set_group_keys length_group_keys)
qed

theorem pie_one_slice_per_group_witness:
  "generate_chart sales_frame ''pie'' ''name'' ''sales'' None True 400 True
     = Inr (update_layout ''pie'' ''name'' ''sales'' True
              (px_pie [(PStr ''A'', 15), (PStr ''B'', 20)] ''sales by name'' 400 None))
   \<and> slices (update_layout ''pie'' ''name'' ''sales'' True
              (px_pie [(PStr ''A'', 15), (PStr ''B'', 20)] ''sales by name'' 400 None))
     = [(PStr ''A'', PNum 15), (PStr ''B'', PNum 20)]"
proof -
  let ?fig = "update_layout ''pie'' ''name'' ''sales'' True
                (px_pie [(PStr ''A'', 15), (PStr ''B'', 20)] ''sales by name'' 400 None)"
  have gen: "generate_chart sales_frame ''pie'' ''name'' ''sales'' None True 400 True = Inr ?fig"
    by (simp add: sales_frame_def generate_chart_def create_figure_def groupby_sum_def
        column_def group_keys_def notna_def group_sum_def adjust_categories_def nunique_def)
  have xs: "column sales_frame (Name ''name'')
              = Some \<lparr> dtype = Object, cells = [PStr ''A'', PStr ''B'', PStr ''A''] \<rparr>"
    by (simp add: sales_frame_def column_def)
  have ys: "column sales_frame (Name ''sales'')
              = Some \<lparr> dtype = Number, cells = [PNum 10, PNum 20, PNum 5] \<rparr>"
    by (simp add: sales_frame_def column_def)
  have few: "length (remdups (notna (cells \<lparr> dtype = Object,
               cells = [PStr ''A'', PStr ''B'', PStr ''A''] \<rparr>))) \<le> 10"
    by (simp add: notna_def)
  from pie_one_slice_per_group[OF gen xs ys few] gen show ?thesis
    by simp
qed

subsection \<open>The category-collapsing rule\<close>

lemma adjust_categories_pie:
  assumes ct: "chart_type = ''pie'' \<or> chart_type = ''donut''"
    and xs: "column df (Name x_column) = Some xs"
    and nu: "nunique (cells xs) = Inr n"
    and gb: "groupby_sum df x_column y_column = Inr pie_data"
  shows "adjust_categories df chart_type x_column y_column ttl h fig =
     Inr (if 10 < n \<and> 0 < sum_list (map snd (drop 9 (sort_values_desc pie_data)))
          then px_pie (take 9 (sort_values_desc pie_data)
                         @ [(PStr ''Other'', sum_list (map snd (drop 9 (sort_values_desc pie_data))))])
                      ttl h (Some (if chart_type = ''donut'' then 4 / 10 else 0))
          else fig)"
  using ct xs nu gb by (auto simp: adjust_categories_def Let_def)

text \<open>
  Claim C1, as the code has it. For a pie or donut request whose x column has more
  than 10 distinct values, the rows are aggregated (y summed per x) and sorted
  descending by the summed y. When the sum of the groups after the ninth is
  positive, the figure shows the top 9 groups verbatim followed by one group
  "Other" carrying that sum: exactly 10 groups. When that sum is not positive,
  the collapsing step is skipped altogether: no "Other" group is added and the
  figure keeps one group per distinct x value.
\<close>

theorem collapse_rule:
  assumes ct: "chart_type = ''pie'' \<or> chart_type = ''donut''"
    and gen: "generate_chart df chart_type x_column y_column title_arg use_color h show_grid = Inr fig"
    and xs: "column df (Name x_column) = Some xs"
    and ys: "column df (Name y_column) = Some ys"
    and many: "10 < length (remdups (notna (cells xs)))"
  shows "\<exists>pie_data.
      groupby_sum df x_column y_column = Inr pie_data
    \<and> pie_data = map (\<lambda>k. (k, group_sum (zip (cells xs) (cells ys)) k)) (group_keys (cells xs))
    \<and> length pie_data = length (remdups (notna (cells xs)))
    \<and> mset (sort_values_desc pie_data) = mset pie_data
    \<and> sorted_wrt (\<lambda>a b. b \<le> a) (map snd (sort_values_desc pie_data))
    \<and> (if 0 < sum_list (map snd (drop 9 (sort_values_desc pie_data)))
        then slices fig =
               map (\<lambda>r. (fst r, PNum (snd r))) (take 9 (sort_values_desc pie_data))
               @ [(PStr ''Other'', PNum (sum_list (map snd (drop 9 (sort_values_desc pie_data)))))]
             \<and> length (slices fig) = 10
        else slices fig = map (\<lambda>r. (fst r, PNum (snd r))) pie_data
             \<and> length (slices fig) = length (remdups (notna (cells xs))))"
proof -
  from generate_pie_Inr[OF ct gen] xs obtain pie_data ttl where
    gb: "groupby_sum df x_column y_column = Inr pie_data"
    and nu: "nunique (cells xs) = Inr (length (remdups (notna (cells xs))))"
    and adj: "adjust_categories df chart_type x_column y_column ttl h
        (update_layout chart_type x_column y_column show_grid
           (px_pie pie_data ttl h (if chart_type = ''donut'' then Some (4 / 10) else None))) = Inr fig"
    by auto
  from gb xs ys have pd:
    "pie_data = map (\<lambda>k. (k, group_sum (zip (cells xs) (cells ys)) k)) (group_keys (cells xs))"
    by (auto elim!: groupby_sum_Inr)
  then have len: "length pie_data = length (remdups (notna (cells xs)))"
    by (simp add: length_group_keys)
  let ?srt = "sort_values_desc pie_data"
  let ?other = "sum_list (map snd (drop 9 ?srt))"
  have fig: "fig = (if 0 < ?other
          then px_pie (take 9 ?srt @ [(PStr ''Other'', ?other)])
                      ttl h (Some (if chart_type = ''donut'' then 4 / 10 else 0))
          else update_layout chart_type x_column y_column show_grid
                 (px_pie pie_data ttl h (if chart_type = ''donut'' then Some (4 / 10) else None)))"
    using adj many unfolding adjust_categories_pie[OF ct xs nu gb] by simp
  have nine: "length (take 9 ?srt) = 9"
    using many len by (simp add: length_sort_values_desc)
  have branch: "if 0 < ?other
        then slices fig = map (\<lambda>r. (fst r, PNum (snd r))) (take 9 ?srt)
                           @ [(PStr ''Other'', PNum ?other)]
             \<and> length (slices fig) = 10
        else slices fig = map (\<lambda>r. (fst r, PNum (snd r))) pie_data
             \<and> length (slices fig) = length (remdups (notna (cells xs)))"
  proof (cases "0 < ?other")
    case True
    then have "slices fig = map (\<lambda>r. (fst r, PNum (snd r))) (take 9 ?srt)
                              @ [(PStr ''Other'', PNum ?other)]"
      by (simp add: fig px_pie_slices)
    moreover from this nine have "length (slices fig) = 10"
      by simp
    ultimately show ?thesis using True by simp
  next
    case False
    then have "slices fig = map (\<lambda>r. (fst r, PNum (snd r))) pie_data"
      by (simp add: fig px_pie_slices slices_update_layout)
    then show ?thesis using False len by simp
  qed
  from gb pd len branch show ?thesis
    using mset_sort_values_desc[of pie_data] sorted_sort_values_desc[of pie_data]
    by blast
qed

lemma eleven_cat:
  "column eleven_frame (Name ''cat'') = Some \<lparr> dtype = Object, cells =
     [PStr ''a'', PStr ''b'', PStr ''c'', PStr ''d'', PStr ''e'', PStr ''f'',
      PStr ''g'', PStr ''h'', PStr ''i'', PStr ''j'', PStr ''k''] \<rparr>"
  by (simp add: eleven_frame_def column_def)

lemma eleven_amount:
  "column eleven_frame (Name ''amount'') = Some \<lparr> dtype = Number, cells =
     [PNum 1, PNum 2, PNum 3, PNum 4, PNum 5, PNum 6,
      PNum 7, PNum 8, PNum 9, PNum 10, PNum 11] \<rparr>"
  by (simp add: eleven_frame_def column_def)

lemma eleven_groups_amount:
  "groupby_sum eleven_frame ''cat'' ''amount'' =
     Inr [(PStr ''a'', 1), (PStr ''b'', 2), (PStr ''c'', 3), (PStr ''d'', 4), (PStr ''e'', 5),
          (PStr ''f'', 6), (PStr ''g'', 7), (PStr ''h'', 8), (PStr ''i'', 9), (PStr ''j'', 10),
          (PStr ''k'', 11)]"
  by (simp add: eleven_frame_def groupby_sum_def column_def group_keys_def notna_def group_sum_def)

lemma eleven_groups_tail0:
  "groupby_sum eleven_frame ''cat'' ''tail0'' =
     Inr [(PStr ''a'', 0), (PStr ''b'', 10), (PStr ''c'', 10), (PStr ''d'', 10), (PStr ''e'', 10),
          (PStr ''f'', 10), (PStr ''g'', 10), (PStr ''h'', 10), (PStr ''i'', 10), (PStr ''j'', 10),
          (PStr ''k'', 0)]"
  by (simp add: eleven_frame_def groupby_sum_def column_def group_keys_def notna_def group_sum_def)

lemma eleven_donut_amount:
  "generate_chart eleven_frame ''donut'' ''cat'' ''amount'' None True 400 True =
     Inr (px_pie [(PStr ''k'', 11), (PStr ''j'', 10), (PStr ''i'', 9), (PStr ''h'', 8),
                  (PStr ''g'', 7), (PStr ''f'', 6), (PStr ''e'', 5), (PStr ''d'', 4),
                  (PStr ''c'', 3), (PStr ''Other'', 3)] ''amount by cat'' 400 (Some (4 / 10)))"
  by (simp add: generate_chart_def create_figure_def eleven_groups_amount
      adjust_categories_def eleven_cat nunique_def notna_def sort_values_desc_def)

theorem collapse_rule_witness:
  "generate_chart eleven_frame ''donut'' ''cat'' ''amount'' None True 400 True =
     Inr (px_pie [(PStr ''k'', 11), (PStr ''j'', 10), (PStr ''i'', 9), (PStr ''h'', 8),
                  (PStr ''g'', 7), (PStr ''f'', 6), (PStr ''e'', 5), (PStr ''d'', 4),
                  (PStr ''c'', 3), (PStr ''Other'', 3)] ''amount by cat'' 400 (Some (4 / 10)))
   \<and> length (slices (px_pie [(PStr ''k'', 11), (PStr ''j'', 10), (PStr ''i'', 9), (PStr ''h'', 8),
                  (PStr ''g'', 7), (PStr ''f'', 6), (PStr ''e'', 5), (PStr ''d'', 4),
                  (PStr ''c'', 3), (PStr ''Other'', 3)] ''amount by cat'' 400 (Some (4 / 10)))) = 10"
proof -
  have ct: "''donut'' = ''pie'' \<or> ''donut'' = ''donut''"
    by simp
  have many: "10 < length (remdups (notna (cells \<lparr> dtype = Object, cells =
     [PStr ''a'', PStr ''b'', PStr ''c'', PStr ''d'', PStr ''e'', PStr ''f'',
      PStr ''g'', PStr ''h'', PStr ''i'', PStr ''j'', PStr ''k''] \<rparr>)))"
    by (simp add: notna_def)
  have pos: "0 < sum_list (map snd (drop 9 (sort_values_desc
     [(PStr ''a'', 1), (PStr ''b'', 2), (PStr ''c'', 3), (PStr ''d'', 4), (PStr ''e'', 5),
      (PStr ''f'', 6), (PStr ''g'', 7), (PStr ''h'', 8), (PStr ''i'', 9), (PStr ''j'', 10),
      (PStr ''k'', 11 :: real)])))"
    by (simp add: sort_values_desc_def)
  from collapse_rule[OF ct eleven_donut_amount eleven_cat eleven_amount many] pos
  show ?thesis
    by (auto simp: eleven_donut_amount eleven_groups_amount)
qed

theorem collapse_zero_remainder_counterexample:
  "nunique (cells (the (column eleven_frame (Name ''cat'')))) = Inr 11
   \<and> sum_list (map snd (drop 9 (sort_values_desc
         (projr (groupby_sum eleven_frame ''cat'' ''tail0''))))) = 0
   \<and> \<not> isl (generate_chart eleven_frame ''pie'' ''cat'' ''tail0'' None True 400 True)
   \<and> length (slices (projr
         (generate_chart eleven_frame ''pie'' ''cat'' ''tail0'' None True 400 True))) = 11
   \<and> length (slices (projr
         (generate_chart eleven_frame ''pie'' ''cat'' ''tail0'' None True 400 True))) \<noteq> 9"
  by (simp add: generate_chart_def create_figure_def eleven_groups_tail0 adjust_categories_def
      eleven_cat nunique_def notna_def sort_values_desc_def px_pie_slices slices_update_layout)

subsection \<open>Layout normalisation\<close>

lemma layout_fields_update_layout:
  "title_x (update_layout ct x y g fig) = Some (1 / 2)
   \<and> xaxis_title (update_layout ct x y g fig) = Some x
   \<and> yaxis_title (update_layout ct x y g fig) =
       (if ct \<noteq> ''pie'' \<and> ct \<noteq> ''donut'' then Some y else None)
   \<and> template (update_layout ct x y g fig) = Some (if g then ''plotly'' else ''plotly_white'')"
  by (simp add: update_layout_def)

text \<open>
  Every path through \<open>generate_chart\<close> other than the rebuilt pie returns the figure
  that went through \<^verbatim>\<open>update_layout\<close>: for a chart type that is neither pie nor donut
  the layout directives are always in place.
\<close>

lemma layout_normalized_cartesian:
  assumes gen: "generate_chart df chart_type x_column y_column title_arg use_color h show_grid = Inr fig"
    and ct: "chart_type \<noteq> ''pie''" "chart_type \<noteq> ''donut''"
  shows "title_x fig = Some (1 / 2) \<and> xaxis_title fig = Some x_column
       \<and> yaxis_title fig = Some y_column
       \<and> template fig = Some (if show_grid then ''plotly'' else ''plotly_white'')"
proof -
  from gen obtain fig0 ttl where
    adj: "adjust_categories df chart_type x_column y_column ttl h
        (update_layout chart_type x_column y_column show_grid fig0) = Inr fig"
    unfolding generate_chart_def by (auto simp: Let_def split: sum.splits)
  let ?f1 = "update_layout chart_type x_column y_column show_grid fig0"
  from adj ct have "fig = ?f1 \<or> fig = ?f1 \<lparr> xaxis_tickangle := Some (- 45) \<rparr>"
    unfolding adjust_categories_def
    by (auto split: option.splits sum.splits if_splits)
  then show ?thesis
    using layout_fields_update_layout[of chart_type x_column y_column show_grid fig0] ct
    by auto
qed

text \<open>
  Claim C2 at its failing input. With eleven categories and a positive remainder the
  pie is rebuilt after \<^verbatim>\<open>update_layout\<close> has run, and the figure returned carries none
  of the layout directives: the title is not centred, no x-axis label is set and the
  theme chosen from the show-grid flag is missing. The same request over the
  three-row sales frame, where the collapse does not trigger, carries all of them.
\<close>

theorem rebuilt_pie_loses_layout:
  "\<not> isl (generate_chart eleven_frame ''pie'' ''cat'' ''amount'' None True 400 False)
   \<and> title_x (projr (generate_chart eleven_frame ''pie'' ''cat'' ''amount'' None True 400 False)) = None
   \<and> xaxis_title (projr (generate_chart eleven_frame ''pie'' ''cat'' ''amount'' None True 400 False)) = None
   \<and> template (projr (generate_chart eleven_frame ''pie'' ''cat'' ''amount'' None True 400 False)) = None
   \<and> title_x (projr (generate_chart sales_frame ''pie'' ''name'' ''sales'' None True 400 False))
       = Some (1 / 2)
   \<and> xaxis_title (projr (generate_chart sales_frame ''pie'' ''name'' ''sales'' None True 400 False))
       = Some ''name''
   \<and> template (projr (generate_chart sales_frame ''pie'' ''name'' ''sales'' None True 400 False))
       = Some ''plotly_white''"
proof -
  have "generate_chart eleven_frame ''pie'' ''cat'' ''amount'' None True 400 False =
     Inr (px_pie [(PStr ''k'', 11), (PStr ''j'', 10), (PStr ''i'', 9), (PStr ''h'', 8),
                  (PStr ''g'', 7), (PStr ''f'', 6), (PStr ''e'', 5), (PStr ''d'', 4),
                  (PStr ''c'', 3), (PStr ''Other'', 3)] ''amount by cat'' 400 (Some 0))"
    by (simp add: generate_chart_def create_figure_def eleven_groups_amount
        adjust_categories_def eleven_cat nunique_def notna_def sort_values_desc_def)
  moreover have "generate_chart sales_frame ''pie'' ''name'' ''sales'' None True 400 False =
     Inr (update_layout ''pie'' ''name'' ''sales'' False
            (px_pie [(PStr ''A'', 15), (PStr ''B'', 20)] ''sales by name'' 400 None))"
    by (simp add: sales_frame_def generate_chart_def create_figure_def groupby_sum_def
        column_def group_keys_def notna_def group_sum_def adjust_categories_def nunique_def)
  ultimately show ?thesis
    by (simp add: px_pie_def px_def update_layout_def)
qed

subsection \<open>The advertised chart types\<close>

text \<open>
  Claim C10. \<open>available_chart_types\<close> is exactly the eight-element list bar, line,
  scatter, pie, area, histogram, box, violin, which does not contain donut; yet
  \<open>generate_chart\<close> accepts the type donut and builds a pie figure with hole 0.4 for
  it, whenever the x and y columns exist and are distinct, the x cells are hashable
  and the y column is not of dtype object.
\<close>

theorem donut_built_but_not_advertised:
  assumes xs: "column df (Name x_column) = Some xs"
    and ys: "column df (Name y_column) = Some ys"
    and hash: "list_all hashable (cells xs)"
    and num: "dtype ys \<noteq> Object"
    and ne: "x_column \<noteq> y_column"
  shows "available_chart_types =
           [''bar'', ''line'', ''scatter'', ''pie'', ''area'', ''histogram'', ''box'', ''violin'']
       \<and> ''donut'' \<notin> set available_chart_types
       \<and> (\<exists>fig. generate_chart df ''donut'' x_column y_column title_arg use_color h show_grid
                   = Inr fig
                 \<and> geometry fig = ''pie'' \<and> hole fig = Some (4 / 10))"
proof -
  let ?pd = "map (\<lambda>k. (k, group_sum (zip (cells xs) (cells ys)) k)) (group_keys (cells xs))"
  let ?ttl = "case title_arg of None \<Rightarrow> y_column @ '' by '' @ x_column | Some t \<Rightarrow> t"
  have gb: "groupby_sum df x_column y_column = Inr ?pd"
    using xs ys hash num ne by (simp add: groupby_sum_def)
  have nu: "nunique (cells xs) = Inr (length (remdups (notna (cells xs))))"
    using hash by (simp add: nunique_def)
  have ct: "''donut'' = ''pie'' \<or> ''donut'' = ''donut''"
    by simp
  have cf: "create_figure df ''donut'' x_column y_column ?ttl use_color h
              = Inr (px_pie ?pd ?ttl h (Some (4 / 10)))"
    by (simp add: create_figure_def gb)
  have "\<exists>fig. generate_chart df ''donut'' x_column y_column title_arg use_color h show_grid = Inr fig
          \<and> geometry fig = ''pie'' \<and> hole fig = Some (4 / 10)"
    unfolding generate_chart_def Let_def cf adjust_categories_pie[OF ct xs nu gb]
    by (simp add: px_pie_def px_def update_layout_def)
  then show ?thesis
    by (simp add: available_chart_types_def)
qed

theorem donut_built_but_not_advertised_witness:
  "''donut'' \<notin> set available_chart_types
   \<and> \<not> isl (generate_chart sales_frame ''donut'' ''name'' ''sales'' None True 400 True)"
proof -
  have xs: "column sales_frame (Name ''name'')
              = Some \<lparr> dtype = Object, cells = [PStr ''A'', PStr ''B'', PStr ''A''] \<rparr>"
    by (simp add: sales_frame_def column_def)
  have ys: "column sales_frame (Name ''sales'')
              = Some \<lparr> dtype = Number, cells = [PNum 10, PNum 20, PNum 5] \<rparr>"
    by (simp add: sales_frame_def column_def)
  have "list_all hashable (cells \<lparr> dtype = Object, cells = [PStr ''A'', PStr ''B'', PStr ''A''] \<rparr>)"
    and "dtype \<lparr> dtype = Number, cells = [PNum 10, PNum 20, PNum 5] \<rparr> \<noteq> Object"
    and "''name'' \<noteq> ''sales''"
    by simp_all
  from donut_built_but_not_advertised[OF xs ys this, of None True 400 True]
  show ?thesis
    by auto
qed

section \<open>Properties of the file loader\<close>

subsection \<open>Dispatch on the extension\<close>

lemma load_file_json_errors:
  assumes "file_type f = ''json''" and "load_file read_csv json_load f = Inl e"
  shows "\<exists>m. e = ErrorLoadingJSON m"
  using assms by (auto simp: load_file_def split: sum.splits)

lemma load_file_csv_errors:
  assumes "file_type f = ''csv''" and "load_file read_csv json_load f = Inl e"
  shows "\<exists>m. e = ErrorLoadingCSV m \<or> e = FailedToParseCSV m"
  using assms
  by (auto simp: load_file_def split: sum.splits prod.splits py_error.splits)

text \<open>
  Claim C3. With the extension taken case-insensitively from the file name: an
  extension that is neither csv nor json makes \<open>load_file\<close> fail with the
  unsupported-format error; for csv and json every failure is a parse error; and for
  csv the UTF-8 attempt comes first, its result is returned when it succeeds, the
  Latin-1 attempt is made (on the stream as the first attempt left it) exactly when
  the first one raised \<^verbatim>\<open>UnicodeDecodeError\<close>, and any other exception of the first
  attempt fails at once.
\<close>

theorem load_file_dispatch:
  "(file_type f \<noteq> ''csv'' \<and> file_type f \<noteq> ''json''
      \<longrightarrow> load_file read_csv json_load f = Inl (UnsupportedFileType (file_type f))
          \<and> error_class (UnsupportedFileType (file_type f)) = UnsupportedFormat)
   \<and> (file_type f = ''csv'' \<or> file_type f = ''json''
      \<longrightarrow> (\<forall>e. load_file read_csv json_load f = Inl e \<longrightarrow> error_class e = ParseError))
   \<and> (file_type f = ''csv'' \<longrightarrow>
        (case read_csv ''utf-8'' f of
           (Inr df, f') \<Rightarrow> load_file read_csv json_load f = Inr df
         | (Inl (UnicodeDecodeError m), f') \<Rightarrow>
             load_file read_csv json_load f =
               (case fst (read_csv ''latin1'' f') of
                  Inr df \<Rightarrow> Inr df
                | Inl e \<Rightarrow> Inl (FailedToParseCSV (message e)))
         | (Inl e, f') \<Rightarrow> load_file read_csv json_load f = Inl (ErrorLoadingCSV (message e))))"
proof (intro conjI impI)
  assume "file_type f \<noteq> ''csv'' \<and> file_type f \<noteq> ''json''"
  then show "load_file read_csv json_load f = Inl (UnsupportedFileType (file_type f))"
    by (simp add: load_file_def)
next
  show "error_class (UnsupportedFileType (file_type f)) = UnsupportedFormat"
    by simp
next
  assume ft: "file_type f = ''csv'' \<or> file_type f = ''json''"
  show "\<forall>e. load_file read_csv json_load f = Inl e \<longrightarrow> error_class e = ParseError"
  proof (intro allI impI)
    fix e
    assume "load_file read_csv json_load f = Inl e"
    with ft load_file_csv_errors[of f read_csv json_load e]
      load_file_json_errors[of f read_csv json_load e]
    show "error_class e = ParseError"
      by auto
  qed
next
  assume "file_type f = ''csv''"
  then show "case read_csv ''utf-8'' f of
           (Inr df, f') \<Rightarrow> load_file read_csv json_load f = Inr df
         | (Inl (UnicodeDecodeError m), f') \<Rightarrow>
             load_file read_csv json_load f =
               (case fst (read_csv ''latin1'' f') of
                  Inr df \<Rightarrow> Inr df
                | Inl e \<Rightarrow> Inl (FailedToParseCSV (message e)))
         | (Inl e, f') \<Rightarrow> load_file read_csv json_load f = Inl (ErrorLoadingCSV (message e))"
    by (simp add: load_file_def split: prod.splits sum.splits py_error.splits)
qed

lemma file_type_examples:
  "file_type (upload ''Data.CSV'') = ''csv''"
  "file_type (upload ''report.Json'') = ''json''"
  "file_type (upload ''notes.csv.txt'') = ''txt''"
  by (simp_all add: file_type_def upload_def last_part_def lower_def lower_char_def)

theorem load_file_dispatch_witness:
  "load_file csv_latin1_only (json_yields PNone) (upload ''notes.csv.txt'')
     = Inl (UnsupportedFileType ''txt'')
   \<and> load_file csv_latin1_only (json_yields PNone) (upload ''Data.CSV'') = Inr sales_frame
   \<and> load_file csv_malformed (json_yields PNone) (upload ''Data.CSV'')
       = Inl (ErrorLoadingCSV ''Error tokenizing data'')
   \<and> error_class (ErrorLoadingCSV ''Error tokenizing data'') = ParseError"
proof -
  have 1: "load_file csv_latin1_only (json_yields PNone) (upload ''notes.csv.txt'')
     = Inl (UnsupportedFileType ''txt'')"
    using load_file_dispatch[of "upload ''notes.csv.txt''" csv_latin1_only "json_yields PNone"]
    by (simp add: file_type_examples)
  have 2: "load_file csv_latin1_only (json_yields PNone) (upload ''Data.CSV'') = Inr sales_frame"
    using load_file_dispatch[of "upload ''Data.CSV''" csv_latin1_only "json_yields PNone"]
    by (simp add: file_type_examples csv_latin1_only_def)
  have 3: "load_file csv_malformed (json_yields PNone) (upload ''Data.CSV'')
       = Inl (ErrorLoadingCSV ''Error tokenizing data'')"
    using load_file_dispatch[of "upload ''Data.CSV''" csv_malformed "json_yields PNone"]
    by (simp add: file_type_examples csv_malformed_def)
  from 1 2 3 show ?thesis
    by simp
qed

subsection \<open>Dispatch on the shape of the JSON root\<close>

lemma is_record_normalised:
  "\<not> is_list d \<Longrightarrow> is_record (as_row (simple_json_normalize d))"
  by (cases d) simp_all

lemma DataFrame_records:
  assumes "list_all is_record rows"
  shows "DataFrame rows =
     Inr \<lparr> index_len = length rows,
           columns = map (\<lambda>k. (Name k, mk_series (map (record_get k) rows)))
                         (unique_first (concat (map record_keys rows))) \<rparr>"
proof (cases rows)
  case Nil
  then show ?thesis
    by (simp add: DataFrame_def unique_first_def)
next
  case (Cons r rs)
  with assms obtain items where "r = Record items"
    by (cases r) auto
  with Cons assms show ?thesis
    by (simp add: DataFrame_def)
qed

lemma json_normalize_no_lists:
  assumes "list_all (\<lambda>d. \<not> is_list d) l"
  shows "json_normalize l =
     Inr \<lparr> index_len = length l,
           columns =
             map (\<lambda>k. (Name k, mk_series (map (\<lambda>d. record_get k (as_row (simple_json_normalize d))) l)))
                 (unique_first (concat (map (\<lambda>d. record_keys (as_row (simple_json_normalize d))) l))) \<rparr>"
proof -
  let ?rows = "map (\<lambda>d. as_row (simple_json_normalize d)) l"
  from assms have "list_all is_record ?rows"
    by (induction l) (simp_all add: is_record_normalised)
  from DataFrame_records[OF this] show ?thesis
    by (cases "l = []") (simp_all add: json_normalize_def unique_first_def comp_def)
qed

lemma scalar_rows_have_no_keys:
  assumes "list_all (\<lambda>d. \<not> is_list d \<and> \<not> is_dict d) l"
  shows "concat (map (\<lambda>d. record_keys (as_row (simple_json_normalize d))) l) = []"
  using assms
proof (induction l)
  case Nil
  then show ?case by simp
next
  case (Cons d ds)
  then have "record_keys (as_row (simple_json_normalize d)) = []"
    by (cases d) simp_all
  with Cons show ?case by simp
qed

lemma load_file_json:
  assumes "file_type f = ''json''"
  shows "load_file read_csv json_load f =
     (case json_frame (json_load f) of
        Inr df \<Rightarrow> Inr df
      | Inl e \<Rightarrow> Inl (ErrorLoadingJSON (message e)))"
  using assms by (simp add: load_file_def)

text \<open>
  Claim C4, as the code has it. For a json upload whose content parses to \<open>json_data\<close> (the root):
  a root array without array elements yields one row per element, the
  dot-flattened keys of its object elements (in first-encountered order) as
  column names, each cell being the element's value under that key or missing
  -- an element that is not an object is not rejected, it yields a row without
  values, so an array of scalars loads as a table with one row per element and
  no columns; a root object whose \<open>data\<close> entry is an array is loaded exactly like
  that array; any other root object yields a single-row table over its own
  keys; and a root that is neither an array nor an object fails with a parse error.
\<close>

theorem load_file_json_shapes:
  assumes ft: "file_type f = ''json''"
    and parsed: "json_load f = Inr json_data"
  shows
    "(\<forall>l. json_data = PList l \<and> list_all (\<lambda>d. \<not> is_list d) l \<longrightarrow>
        (\<exists>df. load_file read_csv json_load f = Inr df
            \<and> index_len df = length l
            \<and> map fst (columns df) =
                 map Name (unique_first
                   (concat (map (\<lambda>d. record_keys (as_row (simple_json_normalize d))) l)))
            \<and> (\<forall>k s. (Name k, s) \<in> set (columns df) \<longrightarrow>
                   cells s = map (\<lambda>d. record_get k (as_row (simple_json_normalize d))) l)))
   \<and> (\<forall>l. json_data = PList l \<and> list_all (\<lambda>d. \<not> is_list d \<and> \<not> is_dict d) l \<longrightarrow>
        load_file read_csv json_load f = Inr \<lparr> index_len = length l, columns = [] \<rparr>)
   \<and> (\<forall>items l. json_data = PDict items \<and> map_of items ''data'' = Some (PList l) \<longrightarrow>
        load_file read_csv json_load f = load_file read_csv (json_yields (PList l)) f)
   \<and> (\<forall>items. json_data = PDict items \<and> (\<forall>l. map_of items ''data'' \<noteq> Some (PList l)) \<longrightarrow>
        load_file read_csv json_load f =
          Inr \<lparr> index_len = 1,
                columns = map (\<lambda>k. (Name k, mk_series [record_get k (Record items)]))
                              (unique_first (map fst items)) \<rparr>)
   \<and> (\<not> is_list json_data \<and> \<not> is_dict json_data \<longrightarrow>
        load_file read_csv json_load f =
          Inl (ErrorLoadingJSON
                 ''Unsupported JSON structure. Please provide a JSON array of objects.'')
        \<and> error_class (ErrorLoadingJSON
                 ''Unsupported JSON structure. Please provide a JSON array of objects.'')
            = ParseError)"
proof (intro conjI allI impI)
  fix l
  assume a: "json_data = PList l \<and> list_all (\<lambda>d. \<not> is_list d) l"
  let ?keys = "unique_first (concat (map (\<lambda>d. record_keys (as_row (simple_json_normalize d))) l))"
  let ?df = "\<lparr> index_len = length l,
      columns = map (\<lambda>k. (Name k,
                  mk_series (map (\<lambda>d. record_get k (as_row (simple_json_normalize d))) l))) ?keys \<rparr>"
  from a have jn: "json_normalize l = Inr ?df"
    by (simp add: json_normalize_no_lists)
  with a parsed have "load_file read_csv json_load f = Inr ?df"
    by (simp add: load_file_json[OF ft] json_frame_def)
  moreover have "map fst (columns ?df) = map Name ?keys"
    by (simp add: comp_def)
  moreover have "\<forall>k s. (Name k, s) \<in> set (columns ?df) \<longrightarrow>
      cells s = map (\<lambda>d. record_get k (as_row (simple_json_normalize d))) l"
    by (auto simp: mk_series_def)
  ultimately show "\<exists>df. load_file read_csv json_load f = Inr df
            \<and> index_len df = length l
            \<and> map fst (columns df) = map Name ?keys
            \<and> (\<forall>k s. (Name k, s) \<in> set (columns df) \<longrightarrow>
                   cells s = map (\<lambda>d. record_get k (as_row (simple_json_normalize d))) l)"
    by (intro exI[of _ ?df]) simp
next
  fix l
  assume a: "json_data = PList l \<and> list_all (\<lambda>d. \<not> is_list d \<and> \<not> is_dict d) l"
  then have nl: "list_all (\<lambda>d. \<not> is_list d) l"
    by (simp add: list_all_iff)
  from a have "concat (map (\<lambda>d. record_keys (as_row (simple_json_normalize d))) l) = []"
    by (simp add: scalar_rows_have_no_keys)
  then have "json_normalize l = Inr \<lparr> index_len = length l, columns = [] \<rparr>"
    by (simp add: json_normalize_no_lists[OF nl] unique_first_def)
  with a parsed show "load_file read_csv json_load f = Inr \<lparr> index_len = length l, columns = [] \<rparr>"
    by (simp add: load_file_json[OF ft] json_frame_def)
next
  fix items l
  assume "json_data = PDict items \<and> map_of items ''data'' = Some (PList l)"
  with parsed show "load_file read_csv json_load f = load_file read_csv (json_yields (PList l)) f"
    by (simp add: load_file_json[OF ft] json_frame_def json_yields_def)
next
  fix items
  assume a: "json_data = PDict items \<and> (\<forall>l. map_of items ''data'' \<noteq> Some (PList l))"
  then have "json_frame (Inr json_data) = DataFrame [Record items]"
    by (auto simp: json_frame_def split: option.splits pyval.splits)
  with parsed show "load_file read_csv json_load f =
          Inr \<lparr> index_len = 1,
                columns = map (\<lambda>k. (Name k, mk_series [record_get k (Record items)]))
                              (unique_first (map fst items)) \<rparr>"
    by (simp add: load_file_json[OF ft] DataFrame_def)
next
  assume "\<not> is_list json_data \<and> \<not> is_dict json_data"
  with parsed show "load_file read_csv json_load f =
          Inl (ErrorLoadingJSON
                 ''Unsupported JSON structure. Please provide a JSON array of objects.'')"
    by (cases json_data) (simp_all add: load_file_json[OF ft] json_frame_def)
next
  show "error_class (ErrorLoadingJSON
                 ''Unsupported JSON structure. Please provide a JSON array of objects.'')
            = ParseError"
    by simp
qed

theorem load_file_json_shapes_witness:
  "load_file csv_malformed
     (json_yields (PDict [(''data'', PList [PDict [(''x'', PNum 1), (''y'', PNum 2)],
                                             PDict [(''x'', PNum 2), (''y'', PNum 4)]])]))
     (upload ''report.Json'')
   = load_file csv_malformed
       (json_yields (PList [PDict [(''x'', PNum 1), (''y'', PNum 2)],
                            PDict [(''x'', PNum 2), (''y'', PNum 4)]]))
       (upload ''report.Json'')
   \<and> load_file csv_malformed
       (json_yields (PList [PDict [(''x'', PNum 1), (''y'', PNum 2)],
                            PDict [(''x'', PNum 2), (''y'', PNum 4)]]))
       (upload ''report.Json'')
     = Inr \<lparr> index_len = 2, columns =
          [(Name ''x'', \<lparr> dtype = Number, cells = [PNum 1, PNum 2] \<rparr>),
           (Name ''y'', \<lparr> dtype = Number, cells = [PNum 2, PNum 4] \<rparr>)] \<rparr>
   \<and> load_file csv_malformed (json_yields (PStr ''text'')) (upload ''report.Json'')
     = Inl (ErrorLoadingJSON
              ''Unsupported JSON structure. Please provide a JSON array of objects.'')"
proof -
  let ?l = "[PDict [(''x'', PNum 1), (''y'', PNum 2)], PDict [(''x'', PNum 2), (''y'', PNum 4)]]"
  have ft: "file_type (upload ''report.Json'') = ''json''"
    by (rule file_type_examples)
  have 1: "load_file csv_malformed (json_yields (PDict [(''data'', PList ?l)])) (upload ''report.Json'')
      = load_file csv_malformed (json_yields (PList ?l)) (upload ''report.Json'')"
    using load_file_json_shapes[OF ft, of "json_yields (PDict [(''data'', PList ?l)])"
        "PDict [(''data'', PList ?l)]" csv_malformed]
    by (simp add: json_yields_def)
  have 2: "load_file csv_malformed (json_yields (PList ?l)) (upload ''report.Json'')
     = Inr \<lparr> index_len = 2, columns =
          [(Name ''x'', \<lparr> dtype = Number, cells = [PNum 1, PNum 2] \<rparr>),
           (Name ''y'', \<lparr> dtype = Number, cells = [PNum 2, PNum 4] \<rparr>)] \<rparr>"
    by (simp add: load_file_json[OF ft] json_yields_def json_frame_def json_normalize_def
        DataFrame_def normalise_json_ordered_def unique_first_def mk_series_def infer_dtype_def)
  have 3: "load_file csv_malformed (json_yields (PStr ''text'')) (upload ''report.Json'')
     = Inl (ErrorLoadingJSON
              ''Unsupported JSON structure. Please provide a JSON array of objects.'')"
    using load_file_json_shapes[OF ft, of "json_yields (PStr ''text'')" "PStr ''text''" csv_malformed]
    by (simp add: json_yields_def)
  from 1 2 3 show ?thesis
    by simp
qed

theorem array_of_scalars_loads_counterexample:
  "file_type (upload ''numbers.json'') = ''json''
   \<and> load_file csv_malformed (json_yields (PList [PNum 1, PNum 2])) (upload ''numbers.json'')
       = Inr \<lparr> index_len = 2, columns = [] \<rparr>
   \<and> \<not> isl (load_file csv_malformed (json_yields (PList [PNum 1, PNum 2]))
               (upload ''numbers.json''))"
  by (simp add: file_type_def upload_def last_part_def lower_def lower_char_def
      load_file_def json_yields_def json_frame_def json_normalize_def DataFrame_def
      unique_first_def)

section \<open>Properties of the data analyzer\<close>

subsection \<open>Totality on well-formed containers\<close>

lemma summarize_categorical_total:
  assumes "list_all hashable cs"
  shows "\<exists>r. summarize_categorical cs = Inr r"
  using assms by (simp add: summarize_categorical_def value_counts_def nunique_def)

lemma cat_summaries_total:
  assumes "list_all (\<lambda>c. list_all hashable (cells (snd c))) cols"
  shows "\<exists>r. cat_summaries cols = Inr r"
  using assms
proof (induction cols)
  case Nil
  then show ?case by simp
next
  case (Cons c cols)
  then obtain s rest where "summarize_categorical (cells (snd c)) = Inr s"
    and "cat_summaries cols = Inr rest"
    using summarize_categorical_total[of "cells (snd c)"] by auto
  then show ?case by simp
qed

lemma analyze_data_Inr:
  assumes "analyze_data df = Inr s"
  shows "row_count s = index_len df"
    and "column_count s = length (columns df)"
    and "numeric_summary s =
           (if numeric_cols df \<noteq> [] then Some (describe (numeric_columns df)) else None)"
    and "correlation s =
           (if 1 < length (numeric_cols df) then Some (corr_round2 (numeric_columns df)) else None)"
    and "potential_outliers s =
           (if find_outliers (numeric_columns df) \<noteq> []
            then Some (find_outliers (numeric_columns df)) else None)"
    and "distribution s =
           (if numeric_cols df \<noteq> []
            then Some (map (\<lambda>c. (fst c, distribution_of (snd c))) (numeric_columns df))
            else None)"
proof -
  from assms obtain summaries where s: "s =
          \<lparr> row_count = index_len df,
                column_count = length (columns df),
                column_types = map (\<lambda>c. (fst c, dtype (snd c))) (columns df),
                numeric_summary =
                  (if numeric_cols df \<noteq> [] then Some (describe (numeric_columns df)) else None),
                correlation =
                  (if numeric_cols df \<noteq> [] \<and> 1 < length (numeric_cols df)
                   then Some (corr_round2 (numeric_columns df)) else None),
                potential_outliers =
                  (if numeric_cols df \<noteq> [] \<and> find_outliers (numeric_columns df) \<noteq> []
                   then Some (find_outliers (numeric_columns df)) else None),
                categorical_summary =
                  (if cat_columns df \<noteq> [] then Some summaries else None),
                missing_values =
                  (if 0 < sum_list (map snd (isnull_sum (columns df)))
                   then Some (filter (\<lambda>p. 0 < snd p) (isnull_sum (columns df))) else None),
                distribution =
                  (if numeric_cols df \<noteq> []
                   then Some (map (\<lambda>c. (fst c, distribution_of (snd c))) (numeric_columns df))
                   else None) \<rparr>"
    unfolding analyze_data_def by (auto split: sum.splits)
  show "row_count s = index_len df" "column_count s = length (columns df)"
    "numeric_summary s =
           (if numeric_cols df \<noteq> [] then Some (describe (numeric_columns df)) else None)"
    "distribution s =
           (if numeric_cols df \<noteq> []
            then Some (map (\<lambda>c. (fst c, distribution_of (snd c))) (numeric_columns df))
            else None)"
    by (simp_all add: s)
  show "correlation s =
           (if 1 < length (numeric_cols df) then Some (corr_round2 (numeric_columns df)) else None)"
    by (auto simp: s)
  show "potential_outliers s =
           (if find_outliers (numeric_columns df) \<noteq> []
            then Some (find_outliers (numeric_columns df)) else None)"
    by (auto simp: s numeric_cols_def find_outliers_def)
qed

text \<open>
  Claim C5. On a well-formed container \<open>analyze_data\<close> never fails. The summary it
  returns has the container's row count (0 for a container without rows), and when
  the container has no numeric column the fields \<open>numeric_summary\<close>,
  \<open>correlation\<close>, \<open>potential_outliers\<close> and \<open>distribution\<close> are absent.
\<close>

theorem analyze_data_never_fails:
  assumes wf: "well_formed df"
  shows "\<exists>s. analyze_data df = Inr s
           \<and> row_count s = index_len df
           \<and> (index_len df = 0 \<longrightarrow> row_count s = 0)
           \<and> (numeric_cols df = [] \<longrightarrow>
                 numeric_summary s = None \<and> correlation s = None
                 \<and> potential_outliers s = None \<and> distribution s = None)"
proof -
  from wf have "list_all (\<lambda>c. list_all hashable (cells (snd c))) (cat_columns df)"
    by (auto simp: well_formed_def cat_columns_def list_all_iff)
  then obtain summaries where "cat_summaries (cat_columns df) = Inr summaries"
    using cat_summaries_total by blast
  then obtain s where s: "analyze_data df = Inr s"
    by (simp add: analyze_data_def)
  have "numeric_columns df = []" if "numeric_cols df = []"
    using that by (simp add: numeric_cols_def)
  with analyze_data_Inr[OF s] s show ?thesis
    by (auto simp: find_outliers_def)
qed

theorem analyze_data_never_fails_witness:
  "well_formed names_frame
   \<and> numeric_cols names_frame = []
   \<and> \<not> isl (analyze_data names_frame)
   \<and> row_count (projr (analyze_data names_frame)) = 0
   \<and> numeric_summary (projr (analyze_data names_frame)) = None
   \<and> correlation (projr (analyze_data names_frame)) = None
   \<and> potential_outliers (projr (analyze_data names_frame)) = None
   \<and> distribution (projr (analyze_data names_frame)) = None"
proof -
  have wf: "well_formed names_frame"
    by (simp add: well_formed_def names_frame_def)
  have nc: "numeric_cols names_frame = []"
    by (simp add: numeric_cols_def numeric_columns_def names_frame_def)
  have "index_len names_frame = 0"
    by (simp add: names_frame_def)
  with analyze_data_never_fails[OF wf] wf nc show ?thesis
    by auto
qed

text \<open>The hypothesis is needed: a cell holding a list (as the loader produces for a
  JSON array inside a record) makes \<^verbatim>\<open>value_counts\<close> raise.\<close>

lemma analyze_data_unhashable_cell:
  "analyze_data \<lparr> index_len = 1,
       columns = [(Name ''tags'', \<lparr> dtype = Object, cells = [PList [PStr ''a'']] \<rparr>)] \<rparr>
     = Inl (TypeError ''unhashable type'')"
  by (simp add: analyze_data_def cat_columns_def numeric_cols_def numeric_columns_def
      summarize_categorical_def value_counts_def)

subsection \<open>Outliers\<close>

lemma map_of_filtered_columns:
  assumes "distinct (map fst cols)" and "(l, ser) \<in> set cols"
  shows "map_of (map (\<lambda>c. (fst c, g (snd c))) (filter (\<lambda>c. P (snd c)) cols)) l =
           (if P ser then Some (g ser) else None)"
  using assms
proof (induction cols)
  case Nil
  then show ?case by simp
next
  case (Cons c cols)
  show ?case
  proof (cases "c = (l, ser)")
    case True
    with Cons.prems have "l \<notin> fst ` set cols"
      by auto
    then have "map_of (map (\<lambda>c. (fst c, g (snd c))) (filter (\<lambda>c. P (snd c)) cols)) l = None"
      by (auto simp: map_of_eq_None_iff image_iff)
    with True show ?thesis by simp
  next
    case False
    with Cons.prems have "fst c \<noteq> l" and "(l, ser) \<in> set cols" and "distinct (map fst cols)"
      by (auto simp: image_iff)
    with Cons.IH show ?thesis by simp
  qed
qed

lemma distinct_numeric_columns:
  "distinct (map fst (columns df)) \<Longrightarrow> distinct (map fst (numeric_columns df))"
  by (simp add: numeric_columns_def distinct_map_filter)

text \<open>
  Claim C7. For every numeric column, the \<open>potential_outliers\<close> entry is the number
  of values strictly outside the interval from Q1 - 1.5 IQR to Q3 + 1.5 IQR; the
  column has an entry exactly when that number is positive; and when IQR = 0 the
  number is that of the values different from the bound Q1 = Q3.
\<close>

theorem outliers_iqr_rule:
  assumes an: "analyze_data df = Inr s"
    and dist: "distinct (map fst (columns df))"
    and col: "(l, ser) \<in> set (numeric_columns df)"
  shows "(case potential_outliers s of None \<Rightarrow> None | Some d \<Rightarrow> map_of d l)
           = (if 0 < outlier_count ser then Some (outlier_count ser) else None)
       \<and> (\<forall>q1 q3. quantile (1 / 4) (vals ser) = Some q1 \<and> quantile (3 / 4) (vals ser) = Some q3
            \<longrightarrow> outlier_count ser =
                  length (filter (\<lambda>v. v < q1 - 15 / 10 * (q3 - q1) \<or> q3 + 15 / 10 * (q3 - q1) < v)
                            (vals ser))
                \<and> (q3 - q1 = 0 \<longrightarrow>
                      outlier_count ser = length (filter (\<lambda>v. v \<noteq> q1) (vals ser))))
       \<and> (vals ser = [] \<longrightarrow> outlier_count ser = 0)"
proof -
  have entry: "map_of (find_outliers (numeric_columns df)) l
           = (if 0 < outlier_count ser then Some (outlier_count ser) else None)"
    unfolding find_outliers_def
    using map_of_filtered_columns[OF distinct_numeric_columns[OF dist] col,
        of outlier_count "\<lambda>s. 0 < outlier_count s"]
    by simp
  have 1: "(case potential_outliers s of None \<Rightarrow> None | Some d \<Rightarrow> map_of d l)
           = (if 0 < outlier_count ser then Some (outlier_count ser) else None)"
  proof (cases "find_outliers (numeric_columns df) = []")
    case True
    with entry show ?thesis
      by (simp add: analyze_data_Inr(5)[OF an] split: if_splits)
  next
    case False
    with entry show ?thesis
      by (simp add: analyze_data_Inr(5)[OF an])
  qed
  have 2: "outlier_count ser =
             length (filter (\<lambda>v. v < q1 - 15 / 10 * (q3 - q1) \<or> q3 + 15 / 10 * (q3 - q1) < v)
                       (vals ser))
           \<and> (q3 - q1 = 0 \<longrightarrow> outlier_count ser = length (filter (\<lambda>v. v \<noteq> q1) (vals ser)))"
    if "quantile (1 / 4) (vals ser) = Some q1 \<and> quantile (3 / 4) (vals ser) = Some q3" for q1 q3
  proof -
    from that have oc: "outlier_count ser =
             length (filter (\<lambda>v. v < q1 - 15 / 10 * (q3 - q1) \<or> q3 + 15 / 10 * (q3 - q1) < v)
                       (vals ser))"
      by (simp add: outlier_count_def Let_def)
    moreover have "outlier_count ser = length (filter (\<lambda>v. v \<noteq> q1) (vals ser))" if "q3 - q1 = 0"
    proof -
      from that have "q3 = q1" by simp
      then have "(\<lambda>v. v < q1 - 15 / 10 * (q3 - q1) \<or> q3 + 15 / 10 * (q3 - q1) < v)
                   = (\<lambda>v. v \<noteq> q1)"
        by (auto simp: fun_eq_iff)
      with oc show ?thesis by simp
    qed
    ultimately show ?thesis by blast
  qed
  have 3: "outlier_count ser = 0" if "vals ser = []"
    using that by (simp add: outlier_count_def quantile_def)
  from 1 2 3 show ?thesis
    by blast
qed

theorem outliers_iqr_rule_witness:
  "\<not> isl (analyze_data readings_frame)
   \<and> potential_outliers (projr (analyze_data readings_frame)) = Some [(Name ''reading'', 1)]
   \<and> quantile (1 / 4) [1, 1, 1, 1, 100] = Some 1
   \<and> quantile (3 / 4) [1, 1, 1, 1, 100] = Some 1
   \<and> outlier_count \<lparr> dtype = Number, cells = [PNum 1, PNum 1, PNum 1, PNum 1, PNum 100] \<rparr>
       = length (filter (\<lambda>v. v \<noteq> 1) [1, 1, 1, 1, 100 :: real])"
proof -
  let ?ser = "\<lparr> dtype = Number, cells = [PNum 1, PNum 1, PNum 1, PNum 1, PNum 100] \<rparr>"
  obtain s where an: "analyze_data readings_frame = Inr s"
    by (simp add: analyze_data_def readings_frame_def cat_columns_def numeric_cols_def
        numeric_columns_def)
  have dist: "distinct (map fst (columns readings_frame))"
    by (simp add: readings_frame_def)
  have col: "(Name ''reading'', ?ser) \<in> set (numeric_columns readings_frame)"
    by (simp add: numeric_columns_def readings_frame_def)
  have v: "vals ?ser = [1, 1, 1, 1, 100]"
    by (simp add: vals_def List.map_filter_def)
  have q: "quantile (1 / 4) [1, 1, 1, 1, 100] = Some 1" "quantile (3 / 4) [1, 1, 1, 1, 100] = Some 1"
    by (simp_all add: quantile_def)
  have fo: "find_outliers (numeric_columns readings_frame) = [(Name ''reading'', outlier_count ?ser)]"
    if "0 < outlier_count ?ser"
    using that by (simp add: find_outliers_def numeric_columns_def readings_frame_def)
  from outliers_iqr_rule[OF an dist col] q v
  have oc: "outlier_count ?ser = length (filter (\<lambda>v. v \<noteq> 1) [1, 1, 1, 1, 100 :: real])"
    by simp
  then have "outlier_count ?ser = 1"
    by simp
  with fo have "potential_outliers s = Some [(Name ''reading'', 1)]"
    by (simp add: analyze_data_Inr(5)[OF an])
  with an q oc show ?thesis
    by simp
qed

subsection \<open>Distribution shape\<close>

text \<open>
  Claim C8. For every numeric column the \<open>distribution\<close> entry reports the skewness
  and the kurtosis rounded to two decimals, and its \<open>is_normal\<close> flag holds exactly
  when the absolute (unrounded) skewness and the absolute kurtosis are both below 0.5.
\<close>

theorem distribution_entries:
  assumes an: "analyze_data df = Inr s"
    and dist: "distinct (map fst (columns df))"
    and col: "(l, ser) \<in> set (numeric_columns df)"
  shows "\<exists>d e. distribution s = Some d \<and> map_of d l = Some e
           \<and> skewness e = map_option round2 (skew (vals ser))
           \<and> kurtosis e = map_option round2 (kurt (vals ser))
           \<and> (is_normal e \<longleftrightarrow>
                (\<exists>sk ku. skew (vals ser) = Some sk \<and> kurt (vals ser) = Some ku
                          \<and> \<bar>sk\<bar> < 1 / 2 \<and> \<bar>ku\<bar> < 1 / 2))"
proof -
  let ?d = "map (\<lambda>c. (fst c, distribution_of (snd c))) (numeric_columns df)"
  from col have ne: "numeric_cols df \<noteq> []"
    by (auto simp: numeric_cols_def)
  then have d: "distribution s = Some ?d"
    by (simp add: analyze_data_Inr(6)[OF an])
  have e: "map_of ?d l = Some (distribution_of ser)"
    using map_of_filtered_columns[OF distinct_numeric_columns[OF dist] col,
        of distribution_of "\<lambda>s. True"]
    by simp
  have "is_normal (distribution_of ser) \<longleftrightarrow>
          (\<exists>sk ku. skew (vals ser) = Some sk \<and> kurt (vals ser) = Some ku
                    \<and> \<bar>sk\<bar> < 1 / 2 \<and> \<bar>ku\<bar> < 1 / 2)"
    by (auto simp: distribution_of_def abs_below_half_def Let_def split: option.splits)
  moreover have "skewness (distribution_of ser) = map_option round2 (skew (vals ser))"
    and "kurtosis (distribution_of ser) = map_option round2 (kurt (vals ser))"
    by (simp_all add: distribution_of_def Let_def)
  ultimately show ?thesis
    using d e by blast
qed

theorem distribution_entries_witness:
  "\<exists>s e. analyze_data bell_frame = Inr s
         \<and> map_option (\<lambda>d. map_of d (Name ''dev'')) (distribution s) = Some (Some e)
         \<and> skewness e = Some 0 \<and> kurtosis e = Some (8 / 100) \<and> is_normal e"
proof -
  let ?ser = "\<lparr> dtype = Number,
             cells = [PNum (- 2), PNum (- 1), PNum (- 1), PNum 0, PNum 0,
                      PNum 0, PNum 0, PNum 1, PNum 1, PNum 2] \<rparr>"
  obtain s where an: "analyze_data bell_frame = Inr s"
    by (simp add: analyze_data_def bell_frame_def cat_columns_def numeric_cols_def
        numeric_columns_def)
  have dist: "distinct (map fst (columns bell_frame))"
    by (simp add: bell_frame_def)
  have col: "(Name ''dev'', ?ser) \<in> set (numeric_columns bell_frame)"
    by (simp add: numeric_columns_def bell_frame_def)
  have v: "vals ?ser = [- 2, - 1, - 1, 0, 0, 0, 0, 1, 1, 2]"
    by (simp add: vals_def List.map_filter_def)
  have sk: "skew [- 2, - 1, - 1, 0, 0, 0, 0, 1, 1, 2] = Some 0"
    by (simp add: skew_def dev_sum_def)
  have ku: "kurt [- 2, - 1, - 1, 0, 0, 0, 0, 1, 1, 2] = Some (9 / 112)"
    by (simp add: kurt_def dev_sum_def)
  have r0: "round2 0 = 0"
    by (simp add: round2_def rint_def)
  have "\<lfloor>225 / 28 :: real\<rfloor> = 8"
    by linarith
  then have r1: "round2 (9 / 112) = 8 / 100"
    by (simp add: round2_def rint_def)
  from distribution_entries[OF an dist col] obtain d e where
    d: "distribution s = Some d" "map_of d (Name ''dev'') = Some e"
    and es: "skewness e = map_option round2 (skew (vals ?ser))"
    and ek: "kurtosis e = map_option round2 (kurt (vals ?ser))"
    and en: "is_normal e \<longleftrightarrow>
       (\<exists>sk ku. skew (vals ?ser) = Some sk \<and> kurt (vals ?ser) = Some ku
                 \<and> \<bar>sk\<bar> < 1 / 2 \<and> \<bar>ku\<bar> < 1 / 2)"
    by blast
  have "\<exists>sk ku. skew (vals ?ser) = Some sk \<and> kurt (vals ?ser) = Some ku
                 \<and> \<bar>sk\<bar> < 1 / 2 \<and> \<bar>ku\<bar> < 1 / 2"
    unfolding v sk ku by (intro exI[of _ 0] exI[of _ "9 / 112"]) simp
  with en have "is_normal e"
    by simp
  moreover from es have "skewness e = Some 0"
    unfolding v sk by (simp add: r0)
  moreover from ek have "kurtosis e = Some (8 / 100)"
    unfolding v ku by (simp only: option.map r1)
  ultimately show ?thesis
    using an d by (intro exI[of _ s] exI[of _ e]) simp
qed

subsection \<open>Correlation\<close>

lemma complete_pairs_swap:
  "complete_pairs ys xs = map prod.swap (complete_pairs xs ys)"
proof (induction xs arbitrary: ys)
  case Nil
  then show ?case by (cases ys) simp_all
next
  case (Cons x xs)
  then show ?case
    by (cases ys) (simp_all split: option.splits)
qed

lemma pearson_commute: "pearson ys xs = pearson xs ys"
proof -
  let ?ps = "complete_pairs xs ys"
  have sw: "complete_pairs ys xs = map prod.swap ?ps"
    by (rule complete_pairs_swap)
  show ?thesis
    unfolding pearson_def Let_def sw
    by (simp add: comp_def mult.commute)
qed

lemma complete_pairs_self:
  "complete_pairs xs xs = map (\<lambda>v. (v, v)) (List.map_filter num_of xs)"
  by (induction xs) (simp_all add: List.map_filter_simps split: option.splits)

lemma dev_sum_2_nonneg: "0 \<le> dev_sum 2 vs"
  unfolding dev_sum_def by (rule sum_list_nonneg) auto

lemma pearson_self:
  assumes "dev_sum 2 (List.map_filter num_of xs) \<noteq> 0"
  shows "pearson xs xs = Some 1"
proof -
  let ?vs = "List.map_filter num_of xs"
  let ?ss = "dev_sum 2 ?vs"
  from assms have ne: "?vs \<noteq> []"
    by (auto simp: dev_sum_def)
  have pos: "0 < ?ss"
    using assms dev_sum_2_nonneg[of ?vs] by simp
  have x: "sum_list (map (\<lambda>p. (fst p - sum_list (map fst (map (\<lambda>v. (v, v)) ?vs))
                / real (length (map (\<lambda>v. (v, v)) ?vs))) ^ 2) (map (\<lambda>v. (v, v)) ?vs)) = ?ss"
    by (simp add: dev_sum_def comp_def)
  have y: "sum_list (map (\<lambda>p. (snd p - sum_list (map snd (map (\<lambda>v. (v, v)) ?vs))
                / real (length (map (\<lambda>v. (v, v)) ?vs))) ^ 2) (map (\<lambda>v. (v, v)) ?vs)) = ?ss"
    by (simp add: dev_sum_def comp_def)
  have c: "sum_list (map (\<lambda>p. (fst p - sum_list (map fst (map (\<lambda>v. (v, v)) ?vs))
                / real (length (map (\<lambda>v. (v, v)) ?vs)))
              * (snd p - sum_list (map snd (map (\<lambda>v. (v, v)) ?vs))
                / real (length (map (\<lambda>v. (v, v)) ?vs)))) (map (\<lambda>v. (v, v)) ?vs)) = ?ss"
    by (simp add: dev_sum_def comp_def power2_eq_square)
  have sq: "sqrt (?ss * ?ss) = ?ss"
    using pos by simp
  show ?thesis
    unfolding pearson_def Let_def complete_pairs_self x y c sq
    using ne pos by simp
qed

lemma list_of_two:
  assumes "length xs = 2"
  shows "xs = [xs ! 0, xs ! 1]"
proof -
  from assms obtain a b where "xs = [a, b]"
    by (auto simp: length_Suc_conv numeral_2_eq_2)
  then show ?thesis by simp
qed

lemma round2_one: "round2 1 = 1"
  by (simp add: round2_def rint_def)

lemma corr_round2_entry:
  assumes "i < length cols" and "j < length cols"
  shows "corr_round2 cols ! i ! j =
           map_option round2 (pearson (cells (snd (cols ! i))) (cells (snd (cols ! j))))"
  using assms by (simp add: corr_round2_def)

text \<open>
  Claim C6. The \<open>correlation\<close> field is present exactly when the container has at
  least two numeric columns. When present it is the square matrix, over the numeric
  columns, of the pairwise Pearson coefficients rounded to two decimals; it is
  symmetric, and its diagonal entry is 1 for every numeric column whose variance
  is not zero.
\<close>

theorem correlation_matrix:
  assumes an: "analyze_data df = Inr s"
  shows "(correlation s \<noteq> None \<longleftrightarrow> 2 \<le> length (numeric_cols df))
       \<and> (\<forall>m. correlation s = Some m \<longrightarrow>
            length m = length (numeric_cols df)
          \<and> (\<forall>i < length (numeric_cols df). \<forall>j < length (numeric_cols df).
                m ! i ! j = map_option round2
                              (pearson (cells (snd (numeric_columns df ! i)))
                                       (cells (snd (numeric_columns df ! j))))
              \<and> m ! i ! j = m ! j ! i)
          \<and> (\<forall>i < length (numeric_cols df).
                (\<exists>v. variance (vals (snd (numeric_columns df ! i))) = Some v \<and> v \<noteq> 0)
                \<longrightarrow> m ! i ! i = Some 1))"
proof -
  let ?cols = "numeric_columns df"
  have len: "length (numeric_cols df) = length ?cols"
    by (simp add: numeric_cols_def)
  have present: "correlation s \<noteq> None \<longleftrightarrow> 2 \<le> length (numeric_cols df)"
    by (auto simp: analyze_data_Inr(4)[OF an])
  have matrix: "length m = length (numeric_cols df)
          \<and> (\<forall>i < length (numeric_cols df). \<forall>j < length (numeric_cols df).
                m ! i ! j = map_option round2
                              (pearson (cells (snd (?cols ! i))) (cells (snd (?cols ! j))))
              \<and> m ! i ! j = m ! j ! i)
          \<and> (\<forall>i < length (numeric_cols df).
                (\<exists>v. variance (vals (snd (?cols ! i))) = Some v \<and> v \<noteq> 0)
                \<longrightarrow> m ! i ! i = Some 1)"
    if "correlation s = Some m" for m
  proof -
    from that have m: "m = corr_round2 ?cols"
      by (simp add: analyze_data_Inr(4)[OF an] split: if_splits)
    have 1: "length m = length (numeric_cols df)"
      by (simp add: m corr_round2_def len)
    have 2: "m ! i ! j = map_option round2
                              (pearson (cells (snd (?cols ! i))) (cells (snd (?cols ! j))))
              \<and> m ! i ! j = m ! j ! i"
      if "i < length (numeric_cols df)" "j < length (numeric_cols df)" for i j
      using that unfolding m len
      by (simp add: corr_round2_entry pearson_commute[of "cells (snd (?cols ! i))"])
    have 3: "m ! i ! i = Some 1"
      if i: "i < length (numeric_cols df)"
        and var: "\<exists>v. variance (vals (snd (?cols ! i))) = Some v \<and> v \<noteq> 0" for i
    proof -
      from var have "dev_sum 2 (vals (snd (?cols ! i))) \<noteq> 0"
        by (auto simp: variance_def split: if_splits)
      then have "pearson (cells (snd (?cols ! i))) (cells (snd (?cols ! i))) = Some 1"
        unfolding vals_def by (rule pearson_self)
      with i show ?thesis
        unfolding m len by (simp add: corr_round2_entry round2_one)
    qed
    from 1 2 3 show ?thesis
      by blast
  qed
  from present matrix show ?thesis
    by blast
qed

theorem correlation_matrix_witness:
  "\<exists>s. analyze_data xy_frame = Inr s
       \<and> correlation s = Some [[Some 1, Some 1], [Some 1, Some 1]]"
proof -
  obtain s where an: "analyze_data xy_frame = Inr s"
    by (simp add: analyze_data_def xy_frame_def cat_columns_def numeric_cols_def
        numeric_columns_def)
  have cols: "numeric_columns xy_frame =
      [(Name ''x'', \<lparr> dtype = Number, cells = [PNum 1, PNum 2] \<rparr>),
       (Name ''y'', \<lparr> dtype = Number, cells = [PNum 2, PNum 4] \<rparr>)]"
    by (simp add: numeric_columns_def xy_frame_def)
  then have n: "length (numeric_cols xy_frame) = 2"
    by (simp add: numeric_cols_def)
  have vx: "variance (vals \<lparr> dtype = Number, cells = [PNum 1, PNum 2] \<rparr>) = Some (1 / 2)"
    and vy: "variance (vals \<lparr> dtype = Number, cells = [PNum 2, PNum 4] \<rparr>) = Some 2"
    by (simp_all add: variance_def vals_def List.map_filter_def dev_sum_def power2_eq_square)
  have xy: "pearson [PNum 1, PNum 2] [PNum 2, PNum 4] = Some 1"
    by (simp add: pearson_def power2_eq_square)
  from correlation_matrix[OF an] n have "correlation s \<noteq> None"
    by simp
  then obtain m where m: "correlation s = Some m"
    by auto
  have every: "length m = 2
      \<and> (\<forall>i<2. \<forall>j<2. m ! i ! j = map_option round2
                 (pearson (cells (snd (numeric_columns xy_frame ! i)))
                          (cells (snd (numeric_columns xy_frame ! j))))
               \<and> m ! i ! j = m ! j ! i)
      \<and> (\<forall>i<2. (\<exists>v. variance (vals (snd (numeric_columns xy_frame ! i))) = Some v \<and> v \<noteq> 0)
               \<longrightarrow> m ! i ! i = Some 1)"
    using correlation_matrix[OF an] m unfolding n by blast
  then have len: "length m = 2"
    by blast
  from every
  have e: "\<forall>i<2. \<forall>j<2. m ! i ! j = map_option round2
                 (pearson (cells (snd (numeric_columns xy_frame ! i)))
                          (cells (snd (numeric_columns xy_frame ! j))))
               \<and> m ! i ! j = m ! j ! i"
    by blast
  from every
  have d: "\<forall>i<2. (\<exists>v. variance (vals (snd (numeric_columns xy_frame ! i))) = Some v \<and> v \<noteq> 0)
               \<longrightarrow> m ! i ! i = Some 1"
    by blast
  have "\<exists>v. variance (vals (snd (numeric_columns xy_frame ! 0))) = Some v \<and> v \<noteq> 0"
    by (intro exI[of _ "1 / 2"]) (simp add: cols vx)
  with d have d0: "m ! 0 ! 0 = Some 1"
    by simp
  have "\<exists>v. variance (vals (snd (numeric_columns xy_frame ! 1))) = Some v \<and> v \<noteq> 0"
    by (intro exI[of _ 2]) (simp add: cols vy)
  with d have d1: "m ! 1 ! 1 = Some 1"
    by simp
  have e01: "m ! 0 ! 1 = map_option round2
                 (pearson (cells (snd (numeric_columns xy_frame ! 0)))
                          (cells (snd (numeric_columns xy_frame ! 1))))
               \<and> m ! 0 ! 1 = m ! 1 ! 0"
  proof -
    have "(0 :: nat) < 2" and "(1 :: nat) < 2"
      by simp_all
    from e[rule_format, OF this] show ?thesis .
  qed
  have o: "m ! 0 ! 1 = Some 1"
    unfolding e01[THEN conjunct1] by (simp add: cols xy round2_one)
  have o': "m ! 1 ! 0 = Some 1"
    unfolding e01[THEN conjunct2, symmetric] by (rule o)
  from m have "m = corr_round2 (numeric_columns xy_frame)"
    by (simp add: analyze_data_Inr(4)[OF an] split: if_splits)
  then have shape: "length (m ! 0) = 2" "length (m ! 1) = 2"
    by (simp_all add: corr_round2_def cols)
  have "m = [[m ! 0 ! 0, m ! 0 ! 1], [m ! 1 ! 0, m ! 1 ! 1]]"
    using list_of_two[OF len] list_of_two[OF shape(1)] list_of_two[OF shape(2)]
    by metis
  then have "m = [[Some 1, Some 1], [Some 1, Some 1]]"
    unfolding d0 d1 o o' .
  with an m show ?thesis
    by simp
qed

end
